theory Spec2Isabelle
  imports Main "HOL-Library.AList"
begin

section \<open>Notebook runs as traces of calls into the Reaktoro library\<close>

text \<open>
  The repository consists of Jupyter notebooks whose code cells are straight-line
  Python scripts (with a few \<^verbatim>\<open>for\<close> loops and function definitions) that call the
  external Reaktoro library. A notebook is embedded as the sequence of events its cells
  produce when they are executed top to bottom:

  \<^item> \<open>New v C args\<close>: \<^verbatim>\<open>v = C(args)\<close>, construction of a library object of class \<open>C\<close>;
  \<^item> \<open>Call v m args\<close>: \<^verbatim>\<open>v.m(args)\<close>, a method call whose result is dropped, is a number
    or is consumed inside the same expression;
  \<^item> \<open>Bind w C v m args\<close>: \<^verbatim>\<open>w = v.m(args)\<close> where the result is a library object of
    class \<open>C\<close>;
  \<^item> \<open>Chain v [(m1, args1), (m2, args2)]\<close>: \<^verbatim>\<open>v.m1(args1).m2(args2)\<close>, a method called
    on what another method returns, and \<open>BindChain w C v links\<close>, the same with the result
    assigned to \<open>w\<close>;
  \<^item> \<open>For x C v links\<close>: the head of the loop \<^verbatim>\<open>for x in v.m(args):\<close> (or of
    \<^verbatim>\<open>for x in v:\<close> when there is no link): the collection is fetched, once, and in the
    iterations that follow \<open>x\<close> holds its items, of class \<open>C\<close>;
  \<^item> \<open>Fun f args\<close> and \<open>FunBind w C f args\<close>: a call of a free library function;
  \<^item> \<open>SetAttr v a\<close>: the attribute assignment \<^verbatim>\<open>v.a = ...\<close>;
  \<^item> \<open>ReadFlag v\<close>: the attribute read \<^verbatim>\<open>v.optima.succeeded\<close>;
  \<^item> \<open>Print args\<close>: a \<^verbatim>\<open>print\<close> of library objects or of text that depends on a
    solver flag.

  Objects are named by the Python variable that holds them (the notebooks never copy an
  object reference from one variable to another; a function that returns the state it
  created hands it to a parameter of the same name). Arguments are recorded when they are
  variables holding library objects (\<open>Obj\<close>), string literals naming species, phases,
  elements or inputs (\<open>Lit\<close>), or calls of library helpers (\<open>App\<close>). Numbers and unit
  strings are not recorded. Every call of a method of a library object is recorded, also
  on the phases, species, elements and reactions that the accessors of a system or of a
  database return. Plotting with bokeh, table handling with pandas and numpy, Python's
  own \<^verbatim>\<open>len\<close>, \<^verbatim>\<open>float\<close>, \<^verbatim>\<open>range\<close> and \<^verbatim>\<open>format\<close>, reads of numeric attributes
  (\<^verbatim>\<open>props.G0\<close>) and pure text prints are not recorded.
\<close>

text \<open>The Python variables that hold library objects in the notebooks.\<close>

datatype var =
    db
  | aqueousphase | gaseousphase | solution | gases | gas | mineral | minerals | pureminerals
  | calcite | halite | solidsolution | ionexchange | exchange | condensed
  | system | state | brine | rock | mix
  | specs | volumeConstraint | internalEnergyConstraint | conditions | solver
  | result | res
  | props | props0 | aprops | aqprops | exprops
  | species_list | species | element | phase | CO2aq | rxn | rprops | reaction

datatype cls =
    PhreeqcDatabase
  | AqueousPhase | GaseousPhase | MineralPhase | MineralPhases | SolidPhase
  | IonExchangePhase | CondensedPhases
  | ChemicalSystem | ChemicalState | Material
  | EquilibriumSpecs | ConstraintEquation | EquilibriumConditions
  | EquilibriumSolver | EquilibriumResult
  | ChemicalProps | AqueousProps | IonExchangeProps
  | SpeciesList | Species | Element | Phase | Reaction
  | StandardThermoProps | ReactionThermoProps

datatype arg = Obj var | Lit string | App string "arg list"

type_synonym link = "string \<times> arg list"

datatype event =
    New var cls "arg list"
  | Call var string "arg list"
  | Bind var cls var string "arg list"
  | Chain var "link list"
  | BindChain var cls var "link list"
  | For var cls var "link list"
  | Fun string "arg list"
  | FunBind var cls string "arg list"
  | SetAttr var string
  | ReadFlag var
  | Print "arg list"

type_synonym trace = "event list"

text \<open>Python's \<^verbatim>\<open>for x in xs: body\<close>; \<open>repeat\<close> is a loop whose body does not use the
  loop variable.\<close>

definition for_each :: "'a list \<Rightarrow> ('a \<Rightarrow> trace) \<Rightarrow> trace" where
  "for_each xs body = concat (map body xs)"

definition repeat :: "nat \<Rightarrow> trace \<Rightarrow> trace" where
  "repeat n body = concat (replicate n body)"

text \<open>\<^verbatim>\<open>np.arange(a, b, d)\<close> for whole-number arguments.\<close>

definition arange :: "nat \<Rightarrow> nat \<Rightarrow> nat \<Rightarrow> nat list" where
  "arange a b d = map (\<lambda>k. a + d * k) [0..<(b - a + d - 1) div d]"

text \<open>The aggregate state of a species, as far as the notebooks compare it:
  \<^verbatim>\<open>AggregateState.Gas\<close>, \<^verbatim>\<open>AggregateState.CondensedPhase\<close>, or another one.\<close>

datatype aggregate = Gas | CondensedPhase | OtherAggregateState

text \<open>
  What the library answers and the notebooks' output or control flow depends on: the
  success flag of the three solver results that are inspected, the sizes
  of the collections of the library that the loops range over (the surfaces of a state,
  the species and elements of a database or a system, the species of each phase of a
  system) and the aggregate states of the species of a system.
\<close>

record answers =
  fugacity_succeeded :: bool
  charge_balance_succeeded :: bool
  basics_succeeded :: bool
  n_surfaces :: nat
  n_species_nacl :: nat
  n_species_setschenow :: nat
  n_species_gases :: nat
  n_species_pitzer :: nat
  n_species_hocca :: nat
  n_gases_pitzer :: nat
  n_elements_pitzer :: nat
  species_per_phase_halite :: "nat list"
  n_species_halite :: nat
  n_elements_halite :: nat
  n_species_speciated :: nat
  n_species_listed :: nat
  species_per_phase_minerals :: "nat list"
  states_condensed :: "aggregate list"

subsection \<open>tutorials/equilibrium\<close>

text \<open>\<^verbatim>\<open>equilibrium-with-fixed-ph.ipynb\<close>\<close>

definition equilibrium_with_fixed_ph :: trace where
  "equilibrium_with_fixed_ph =
   [ New db PhreeqcDatabase [Lit ''pitzer.dat''],
     New solution AqueousPhase [Lit ''H2O H+ OH- Na+ Cl- HCO3- CO2 CO3-2''],
     Call solution ''setActivityModel'' [App ''ActivityModelPitzerHMW'' []],
     New system ChemicalSystem [Obj db, Obj solution],
     New specs EquilibriumSpecs [Obj system],
     Call specs ''temperature'' [],
     Call specs ''pressure'' [],
     Call specs ''pH'' [],
     New solver EquilibriumSolver [Obj specs],
     New state ChemicalState [Obj system],
     Call state ''temperature'' [],
     Call state ''pressure'' [],
     Call state ''set'' [Lit ''H2O''],
     Call state ''set'' [Lit ''Na+''],
     Call state ''set'' [Lit ''Cl-''],
     Call state ''set'' [Lit ''CO2''],
     Print [Obj state],
     New conditions EquilibriumConditions [Obj specs],
     Call conditions ''temperature'' [],
     Call conditions ''pressure'' [],
     Call conditions ''pH'' [],
     Call solver ''solve'' [Obj state, Obj conditions],
     Print [Obj state],
     New aprops AqueousProps [Obj state],
     Print [Obj aprops] ]"

text \<open>\<^verbatim>\<open>equilibrium-with-fixed-ph-charge-balance.ipynb\<close>. The parameter is the value of
  \<^verbatim>\<open>result.optima.succeeded\<close>.\<close>

definition equilibrium_with_fixed_ph_charge_balance :: "bool \<Rightarrow> trace" where
  "equilibrium_with_fixed_ph_charge_balance succeeded =
   [ New db PhreeqcDatabase [Lit ''phreeqc.dat''],
     New solution AqueousPhase [Lit ''H2O H+ OH- Na+ Cl- HCO3- CO2 CO3-2''],
     Call solution ''setActivityModel'' [App ''ActivityModelDebyeHuckel'' []],
     New system ChemicalSystem [Obj db, Obj solution],
     New specs EquilibriumSpecs [Obj system],
     Call specs ''temperature'' [],
     Call specs ''pressure'' [],
     Call specs ''pH'' [],
     Call specs ''charge'' [],
     Call specs ''openTo'' [Lit ''Cl-''],
     New solver EquilibriumSolver [Obj specs],
     New state ChemicalState [Obj system],
     Call state ''temperature'' [],
     Call state ''pressure'' [],
     Call state ''set'' [Lit ''H2O''],
     Call state ''set'' [Lit ''Na+''],
     Call state ''set'' [Lit ''Cl-''],
     Call state ''set'' [Lit ''CO2''],
     Print [Obj state],
     New conditions EquilibriumConditions [Obj specs],
     Call conditions ''temperature'' [],
     Call conditions ''pressure'' [],
     Call conditions ''pH'' [],
     Call conditions ''charge'' [],
     Bind result EquilibriumResult solver ''solve'' [Obj state, Obj conditions],
     ReadFlag result,
     Print [Lit (if succeeded then ''Successful computation!'' else ''Computation has failed!'')],
     Print [Obj state] ]"

text \<open>\<^verbatim>\<open>equilibrium-with-fixed-fugacity.ipynb\<close>. The parameter is the value of
  \<^verbatim>\<open>result.optima.succeeded\<close>. The last cell reads the gas constant, the
  temperature and pressure of \<^verbatim>\<open>props\<close> and the standard Gibbs energy
  \<^verbatim>\<open>db.species().get("CO2(g)").props(T, P).G0\<close> and combines them arithmetically.\<close>

definition equilibrium_with_fixed_fugacity :: "bool \<Rightarrow> trace" where
  "equilibrium_with_fixed_fugacity succeeded =
   [ New db PhreeqcDatabase [Lit ''phreeqc.dat''],
     New solution AqueousPhase [App ''speciate'' [Lit ''H O Na Cl C Ca'']],
     Call solution ''setActivityModel'' [App ''ActivityModelHKF'' []],
     New calcite MineralPhase [Lit ''Calcite''],
     New system ChemicalSystem [Obj db, Obj solution, Obj calcite],
     New specs EquilibriumSpecs [Obj system],
     Call specs ''temperature'' [],
     Call specs ''pressure'' [],
     Call specs ''fugacity'' [Lit ''CO2(g)''],
     New solver EquilibriumSolver [Obj specs],
     New conditions EquilibriumConditions [Obj specs],
     Call conditions ''temperature'' [],
     Call conditions ''pressure'' [],
     Call conditions ''fugacity'' [Lit ''CO2(g)''],
     New state ChemicalState [Obj system],
     Call state ''temperature'' [],
     Call state ''pressure'' [],
     Call state ''set'' [Lit ''H2O''],
     Call state ''set'' [Lit ''Na+''],
     Call state ''set'' [Lit ''Cl-''],
     Call state ''set'' [Lit ''Calcite''],
     Bind result EquilibriumResult solver ''solve'' [Obj state, Obj conditions],
     ReadFlag result,
     Print [Lit (if succeeded then ''Successful computation!'' else ''Computation has failed!'')],
     Print [Obj state],
     New props ChemicalProps [Obj state],
     Print [Obj props],
     New aprops AqueousProps [Obj state],
     Print [Obj aprops],
     Call props ''temperature'' [],
     Call props ''pressure'' [],
     Call props ''speciesChemicalPotential'' [Lit ''CO2''],
     Chain db [(''species'', []), (''get'', [Lit ''CO2(g)'']), (''props'', [])] ]"

text \<open>\<^verbatim>\<open>equilibrium-with-fixed-phase-amount.ipynb\<close>\<close>

definition equilibrium_with_fixed_phase_amount :: trace where
  "equilibrium_with_fixed_phase_amount =
   [ New db PhreeqcDatabase [Lit ''pitzer.dat''],
     New solution AqueousPhase [App ''speciate'' [Lit ''H O Na Cl C'']],
     Call solution ''setActivityModel'' [App ''ActivityModelPitzerHMW'' []],
     New gases GaseousPhase [Lit ''CO2(g) H2O(g)''],
     Call gases ''setActivityModel'' [App ''ActivityModelPengRobinson'' []],
     New system ChemicalSystem [Obj db, Obj solution, Obj gases],
     New state ChemicalState [Obj system],
     Call state ''temperature'' [],
     Call state ''set'' [Lit ''H2O''],
     Call state ''set'' [Lit ''Na+''],
     Call state ''set'' [Lit ''Cl-''],
     Call state ''set'' [Lit ''CO2''],
     Print [Obj state],
     New specs EquilibriumSpecs [Obj system],
     Call specs ''temperature'' [],
     Call specs ''phaseAmount'' [Lit ''GaseousPhase''],
     New solver EquilibriumSolver [Obj specs],
     New conditions EquilibriumConditions [Obj specs],
     Call conditions ''temperature'' [],
     Call conditions ''phaseAmount'' [Lit ''GaseousPhase''],
     Call conditions ''setLowerBoundPressure'' [],
     Call conditions ''setUpperBoundPressure'' [],
     Call solver ''solve'' [Obj state, Obj conditions],
     Print [Obj state] ]"

text \<open>\<^verbatim>\<open>equilibrium-with-fixed-volume-internal-energy.ipynb\<close>\<close>

definition equilibrium_with_fixed_volume_internal_energy :: trace where
  "equilibrium_with_fixed_volume_internal_energy =
   [ New db PhreeqcDatabase [Lit ''llnl.dat''],
     New gases GaseousPhase [Lit ''CH4(g) O2(g) CO2(g) CO(g) H2O(g) H2(g)''],
     New system ChemicalSystem [Obj db, Obj gases],
     New state ChemicalState [Obj system],
     Call state ''temperature'' [],
     Call state ''pressure'' [],
     Call state ''set'' [Lit ''CH4(g)''],
     Call state ''set'' [Lit ''O2(g)''],
     Call state ''scaleVolume'' [],
     Print [Obj state],
     New props ChemicalProps [Obj state],
     Call props ''volume'' [],
     Call props ''internalEnergy'' [],
     New specs EquilibriumSpecs [Obj system],
     Call specs ''volume'' [],
     Call specs ''internalEnergy'' [],
     New solver EquilibriumSolver [Obj specs],
     New conditions EquilibriumConditions [Obj specs],
     Call conditions ''volume'' [],
     Call conditions ''internalEnergy'' [],
     Call conditions ''setLowerBoundTemperature'' [],
     Call conditions ''setUpperBoundTemperature'' [],
     Call conditions ''setLowerBoundPressure'' [],
     Call conditions ''setUpperBoundPressure'' [],
     Call solver ''solve'' [Obj state, Obj conditions],
     Print [Obj state],
     Chain state [(''props'', []), (''volume'', [])],
     Chain state [(''props'', []), (''internalEnergy'', [])],
     Call state ''temperature'' [],
     Fun ''units.convert'' [],
     Call state ''pressure'' [],
     Fun ''units.convert'' [] ]"

text \<open>The notebook ``Chemical equilibrium: the basics'', second document of
  \<^verbatim>\<open>equilibrium-with-fixed-volume-internal-energy.ipynb\<close>. The parameter is the value
  of \<^verbatim>\<open>result.optima.succeeded\<close>.\<close>

definition equilibrium_basics :: "bool \<Rightarrow> trace" where
  "equilibrium_basics succeeded =
   [ New db PhreeqcDatabase [Lit ''llnl.dat''],
     New gases GaseousPhase [Lit ''CH4(g) O2(g) CO(g) CO2(g) H2O(g) H2(g)''],
     New system ChemicalSystem [Obj db, Obj gases],
     New state ChemicalState [Obj system],
     Call state ''setTemperature'' [],
     Call state ''setPressure'' [],
     Call state ''set'' [Lit ''CH4(g)''],
     Call state ''set'' [Lit ''O2(g)''],
     Print [Obj state],
     New solver EquilibriumSolver [Obj system],
     Call solver ''solve'' [Obj state],
     Print [Obj state],
     New state ChemicalState [Obj system],
     Call state ''temperature'' [],
     Call state ''pressure'' [],
     Call state ''set'' [Lit ''CH4(g)''],
     Call state ''set'' [Lit ''O2(g)''],
     New solver EquilibriumSolver [Obj system],
     Bind result EquilibriumResult solver ''solve'' [Obj state],
     ReadFlag result,
     Print [Lit ''Has solver converged?'', Lit (if succeeded then ''True'' else ''False'')] ]"


text \<open>\<^verbatim>\<open>equilibrium-with-custom-constraints.ipynb\<close>. The two \<^verbatim>\<open>lambda\<close> residual
  functions are stored in the \<^verbatim>\<open>fn\<close> attribute of the constraint objects; the function
  \<^verbatim>\<open>pH\<close> defined in the second part is never called.\<close>

definition equilibrium_with_custom_constraints :: trace where
  "equilibrium_with_custom_constraints =
   [ New db PhreeqcDatabase [Lit ''llnl.dat''],
     New gases GaseousPhase [Lit ''CH4(g) O2(g) CO2(g) CO(g) H2O(g) H2(g)''],
     New system ChemicalSystem [Obj db, Obj gases],
     New state ChemicalState [Obj system],
     Call state ''temperature'' [],
     Call state ''pressure'' [],
     Call state ''set'' [Lit ''CH4(g)''],
     Call state ''set'' [Lit ''O2(g)''],
     Call state ''scaleVolume'' [],
     New props0 ChemicalProps [Obj state],
     Call props0 ''volume'' [],
     Call props0 ''internalEnergy'' [],
     New specs EquilibriumSpecs [Obj system],
     Call specs ''addInput'' [Lit ''V''],
     Call specs ''addInput'' [Lit ''U''],
     New volumeConstraint ConstraintEquation [],
     SetAttr volumeConstraint ''id'',
     SetAttr volumeConstraint ''fn'',
     New internalEnergyConstraint ConstraintEquation [],
     SetAttr internalEnergyConstraint ''id'',
     SetAttr internalEnergyConstraint ''fn'',
     Call specs ''addConstraint'' [Obj volumeConstraint],
     Call specs ''addConstraint'' [Obj internalEnergyConstraint],
     New solver EquilibriumSolver [Obj specs],
     New conditions EquilibriumConditions [Obj specs],
     Call conditions ''set'' [Lit ''V''],
     Call conditions ''set'' [Lit ''U''],
     Call conditions ''setLowerBoundTemperature'' [],
     Call conditions ''setUpperBoundTemperature'' [],
     Call conditions ''setLowerBoundPressure'' [],
     Call conditions ''setUpperBoundPressure'' [],
     Call solver ''solve'' [Obj state, Obj conditions],
     Print [Obj state],
     New db PhreeqcDatabase [Lit ''phreeqc.dat''],
     New solution AqueousPhase [App ''speciate'' [Lit ''H O Na Cl C Ca'']],
     Call solution ''setActivityModel''
       [App ''chain'' [App ''ActivityModelHKF'' [], App ''ActivityModelDrummond'' [Lit ''CO2'']]],
     New gases GaseousPhase [Lit ''CO2(g) H2O(g)''],
     Call gases ''setActivityModel'' [App ''ActivityModelPengRobinson'' []],
     New calcite MineralPhase [Lit ''Calcite''],
     New system ChemicalSystem [Obj db, Obj solution, Obj gases, Obj calcite],
     Chain system [(''species'', []), (''index'', [Lit ''H+''])],
     New state ChemicalState [Obj system],
     Call state ''temperature'' [],
     Call state ''pressure'' [],
     Call state ''set'' [Lit ''H2O''],
     Call state ''set'' [Lit ''Na+''],
     Call state ''set'' [Lit ''Cl-''],
     Call state ''set'' [Lit ''Calcite''],
     New specs EquilibriumSpecs [Obj system],
     Call specs ''temperature'' [],
     Call specs ''pressure'' [],
     Call specs ''pH'' [],
     New conditions EquilibriumConditions [Obj specs],
     Call conditions ''temperature'' [],
     Call conditions ''pressure'' [],
     Call conditions ''set'' [Lit ''pH''],
     New solver EquilibriumSolver [Obj specs],
     Call solver ''solve'' [Obj state, Obj conditions],
     New aprops AqueousProps [Obj state],
     Print [Obj aprops] ]"

subsection \<open>unnamed/part\_000 and unnamed/part\_001\<close>

text \<open>The notebook ``Chemical equilibrium with constraints'' (\<^verbatim>\<open>unnamed/part_000\<close>).\<close>

definition equilibrium_with_constraints :: trace where
  "equilibrium_with_constraints =
   [ New db PhreeqcDatabase [Lit ''llnl.dat''],
     New gases GaseousPhase [Lit ''CH4(g) O2(g) CO2(g) CO(g) H2O(g) H2(g)''],
     New system ChemicalSystem [Obj db, Obj gases],
     New solver EquilibriumSolver [Obj system],
     New state ChemicalState [Obj system],
     Call state ''set'' [Lit ''O2(g)''],
     New specs EquilibriumSpecs [Obj system],
     Call specs ''temperature'' [],
     Call specs ''volume'' [],
     Call specs ''pressure'' [],
     Call specs ''openTo'' [Lit ''CH4''],
     New conditions EquilibriumConditions [Obj specs],
     Call conditions ''temperature'' [],
     Call conditions ''volume'' [],
     Call conditions ''pressure'' [],
     New solver EquilibriumSolver [Obj specs],
     Call solver ''solve'' [Obj state, Obj conditions],
     Call state ''props'' [],
     Chain state [(''equilibrium'', []), (''explicitTitrantAmounts'', [])] ]"

text \<open>The notebook ``Specifying activity models'' (\<^verbatim>\<open>unnamed/part_001\<close>, first document).
  The three loops print the name and the activity coefficient of every species of the
  system (the third one fetches the species by its index, \<^verbatim>\<open>system.species(i)\<close>);
  the parameters are the numbers of species of the three systems.\<close>

definition specifying_activity_models :: "nat \<Rightarrow> nat \<Rightarrow> nat \<Rightarrow> trace" where
  "specifying_activity_models n_nacl n_setschenow n_gases =
   [ New db PhreeqcDatabase [Lit ''phreeqc.dat''],
     New solution AqueousPhase [App ''speciate'' [Lit ''H O Na Cl C Ca Mg'']],
     New gases GaseousPhase [Lit ''CO2(g) H2O(g)''],
     New solidsolution MineralPhase [Lit ''Siderite Rhodochrosite''],
     New ionexchange IonExchangePhase [Lit ''NaX CaX2''],
     New system ChemicalSystem
       [Obj db, Obj solution, Obj gases, Obj solidsolution, Obj ionexchange],
     New solution AqueousPhase [App ''speciate'' [Lit ''H O Na Cl C Ca Mg'']],
     Call solution ''setActivityModel'' [App ''ActivityModelIdealAqueous'' []],
     New gases GaseousPhase [Lit ''CO2(g) H2O(g)''],
     Call gases ''setActivityModel'' [App ''ActivityModelIdealGas'' []],
     New solidsolution MineralPhase [Lit ''Siderite Rhodochrosite''],
     Call solidsolution ''setActivityModel''
       [App ''ActivityModelIdealSolution'' [App ''StateOfMatter.Solid'' []]],
     New ionexchange IonExchangePhase [Lit ''NaX CaX2''],
     Call ionexchange ''setActivityModel'' [App ''ActivityModelIdealIonExchange'' []],
     New system ChemicalSystem
       [Obj db, Obj solution, Obj gases, Obj solidsolution, Obj ionexchange],
     New solution AqueousPhase [App ''speciate'' [Lit ''H O Na Cl'']],
     New system ChemicalSystem [Obj db, Obj solution],
     New state ChemicalState [Obj system],
     Call state ''temperature'' [],
     Call state ''pressure'' [],
     Call state ''set'' [Lit ''H2O''],
     Call state ''set'' [Lit ''Na+''],
     Call state ''set'' [Lit ''Cl-''],
     New props ChemicalProps [Obj state],
     For species Species system [(''species'', [])] ] @
   repeat n_nacl
     [ Call species ''name'' [],
       Call species ''name'' [],
       Call props ''speciesActivityCoefficient'' [] ] @
   [ New solution AqueousPhase [App ''speciate'' [Lit ''H O Na Cl'']],
     Call solution ''setActivityModel''
       [App ''chain'' [App ''ActivityModelHKF'' [],
                       App ''ActivityModelSetschenow'' [Lit ''O2''],
                       App ''ActivityModelSetschenow'' [Lit ''H2''],
                       App ''ActivityModelSetschenow'' [Lit ''NaOH'']]],
     New system ChemicalSystem [Obj db, Obj solution],
     New state ChemicalState [Obj system],
     Call state ''temperature'' [],
     Call state ''pressure'' [],
     Call state ''set'' [Lit ''H2O''],
     Call state ''set'' [Lit ''Na+''],
     Call state ''set'' [Lit ''Cl-''],
     New props ChemicalProps [Obj state],
     For species Species system [(''species'', [])] ] @
   repeat n_setschenow
     [ Call species ''name'' [],
       Call species ''name'' [],
       Call props ''speciesActivityCoefficient'' [] ] @
   [ New gases GaseousPhase [Lit ''CO2(g) CH4(g) H2O(g) O2(g) H2(g)''],
     Call gases ''setActivityModel'' [App ''ActivityModelPengRobinson'' []],
     New system ChemicalSystem [Obj db, Obj gases],
     New state ChemicalState [Obj system],
     Call state ''temperature'' [],
     Call state ''pressure'' [],
     Call state ''set'' [Lit ''CO2(g)''],
     Call state ''set'' [Lit ''CH4(g)''],
     Call state ''set'' [Lit ''H2O(g)''],
     Call state ''set'' [Lit ''O2(g)''],
     Call state ''set'' [Lit ''H2(g)''],
     New props ChemicalProps [Obj state],
     Chain system [(''species'', []), (''size'', [])] ] @
   repeat n_gases
     [ Chain system [(''species'', []), (''name'', [])],
       Call props ''speciesActivityCoefficient'' [] ] @
   [ Print [Obj props],
     New solidsolution SolidPhase [Lit ''K-feldspar Albite''],
     Call solidsolution ''setActivityModel'' [App ''ActivityModelRedlichKister'' []],
     New system ChemicalSystem [Obj db, Obj solidsolution],
     New state ChemicalState [Obj system],
     Call state ''set'' [Lit ''K-feldspar''],
     Call state ''set'' [Lit ''Albite''],
     New props ChemicalProps [Obj state],
     Print [Obj props],
     New solution AqueousPhase [Lit ''H2O Na+ Cl- H+ OH- K+ Ca+2 Mg+2''],
     Call solution ''setActivityModel'' [App ''ActivityModelDebyeHuckel'' []],
     New exchange IonExchangePhase [Lit ''NaX KX CaX2 MgX2''],
     Call exchange ''setActivityModel'' [App ''ActivityModelIonExchangeGainesThomas'' []],
     New system ChemicalSystem [Obj db, Obj solution, Obj exchange],
     New state ChemicalState [Obj system],
     Call state ''set'' [Lit ''H2O''],
     Call state ''set'' [Lit ''Na+''],
     Call state ''set'' [Lit ''K+''],
     Call state ''set'' [Lit ''Mg+2''],
     Call state ''set'' [Lit ''Ca+2''],
     Call state ''set'' [Lit ''NaX''],
     Call state ''set'' [Lit ''KX''],
     Call state ''set'' [Lit ''CaX2''],
     Call state ''set'' [Lit ''MgX2''],
     New props ChemicalProps [Obj state],
     Print [Obj props] ]"

text \<open>The notebook ``Computing chemical properties'' (\<^verbatim>\<open>unnamed/part_001\<close>, second
  document).\<close>

definition computing_chemical_properties :: trace where
  "computing_chemical_properties =
   [ New db PhreeqcDatabase [Lit ''phreeqc.dat''],
     New solution AqueousPhase [App ''speciate'' [Lit ''H O Na Cl C'']],
     New system ChemicalSystem [Obj db, Obj solution],
     New state ChemicalState [Obj system],
     Call state ''temperature'' [],
     Call state ''pressure'' [],
     Call state ''set'' [Lit ''H2O''],
     Call state ''set'' [Lit ''Na+''],
     Call state ''set'' [Lit ''Cl-''],
     Call state ''set'' [Lit ''CO2''],
     Fun ''equilibrate'' [Obj state],
     Print [Obj state],
     New props ChemicalProps [Obj state],
     Print [Obj props],
     New solution AqueousPhase [App ''speciate'' [Lit ''H O Na Cl C Ca Si'']],
     Call solution ''setActivityModel'' [App ''ActivityModelPitzerHMW'' []],
     New gases GaseousPhase [],
     Call gases ''setActivityModel'' [App ''ActivityModelPengRobinson'' []],
     New minerals MineralPhases [],
     New system ChemicalSystem [Obj db, Obj solution, Obj gases, Obj minerals],
     New state ChemicalState [Obj system],
     Call state ''temperature'' [],
     Call state ''pressure'' [],
     Call state ''set'' [Lit ''H2O''],
     Call state ''set'' [Lit ''Na+''],
     Call state ''set'' [Lit ''Cl-''],
     Call state ''set'' [Lit ''CO2''],
     Call state ''set'' [Lit ''Calcite''],
     Call state ''set'' [Lit ''Quartz''],
     Fun ''equilibrate'' [Obj state],
     Bind props ChemicalProps state ''props'' [],
     Print [Obj props],
     Call state ''temperature'' [],
     Call state ''add'' [Lit ''Na+''],
     Call state ''add'' [Lit ''Cl-''],
     Call props ''update'' [Obj state],
     Print [Obj props],
     Call props ''temperature'' [],
     Chain props [(''phaseProps'', [Lit ''AqueousPhase'']), (''density'', [])],
     Chain props [(''phaseProps'', [Lit ''AqueousPhase'']), (''enthalpy'', [])],
     Chain props [(''phaseProps'', [Lit ''GaseousPhase'']), (''density'', [])],
     Chain props [(''phaseProps'', [Lit ''GaseousPhase'']), (''enthalpy'', [])],
     Call props ''speciesActivity'' [Lit ''H+''],
     Call props ''speciesActivityLg'' [Lit ''H+''],
     Call props ''speciesActivityCoefficient'' [Lit ''CO2''],
     Call props ''speciesActivityCoefficient'' [Lit ''CO2(g)''] ]"

subsection \<open>tutorials/basics\<close>

text \<open>\<^verbatim>\<open>creating-chemical-states.ipynb\<close>. The loop ranges over the pairs of phase
  indices in \<^verbatim>\<open>state.surfaces()\<close>; the parameter is the number of surfaces.\<close>

definition creating_chemical_states :: "nat \<Rightarrow> trace" where
  "creating_chemical_states n_surf =
   [ New db PhreeqcDatabase [Lit ''phreeqc.dat''],
     New gases GaseousPhase [Lit ''CO2(g) O2(g) H2(g) H2O(g) CH4(g)''],
     New system ChemicalSystem [Obj db, Obj gases],
     New state ChemicalState [Obj system],
     Call state ''temperature'' [],
     Call state ''pressure'' [],
     Call state ''set'' [Lit ''CO2(g)''],
     Call state ''set'' [Lit ''O2(g)''],
     Call state ''set'' [Lit ''H2(g)''],
     Call state ''set'' [Lit ''H2O(g)''],
     Call state ''set'' [Lit ''CH4(g)''],
     Print [Obj state],
     New db PhreeqcDatabase [Lit ''pitzer.dat''],
     New solution AqueousPhase [],
     New minerals MineralPhases [Lit ''Calcite Quartz''],
     New system ChemicalSystem [Obj db, Obj solution, Obj minerals],
     New state ChemicalState [Obj system],
     Call state ''set'' [Lit ''H2O''],
     Call state ''surfaceArea'' [Lit ''AqueousPhase'', Lit ''Calcite''],
     Call state ''surfaceArea'' [Lit ''AqueousPhase'', Lit ''Quartz''],
     Print [Obj state],
     Call state ''surfaces'' [] ] @
   repeat n_surf
     [ Chain system [(''phase'', []), (''name'', [])],
       Chain system [(''phase'', []), (''name'', [])],
       Call state ''surfaceArea'' [] ]"

text \<open>The notebook ``Defining chemical systems'', second document of
  \<^verbatim>\<open>creating-chemical-states.ipynb\<close>. The loops range over the phases, species and
  elements of the systems; the parameters are the numbers of species in each phase of
  the first and of the fourth system, the numbers of species and elements of the first
  system and of species of the second and third, and the aggregate states of the
  species of the last system, which decide whether a name is printed.\<close>

definition defining_chemical_systems ::
  "nat list \<Rightarrow> nat \<Rightarrow> nat \<Rightarrow> nat \<Rightarrow> nat \<Rightarrow> nat list \<Rightarrow> aggregate list \<Rightarrow> trace" where
  "defining_chemical_systems per_phase_halite n_halite n_elements n_speciated n_listed
     per_phase_minerals states =
   [ New db PhreeqcDatabase [Lit ''phreeqc.dat''],
     New solution AqueousPhase [Lit ''H2O H+ OH- Na+ Cl-''],
     New halite MineralPhase [Lit ''Halite''],
     New system ChemicalSystem [Obj db, Obj solution, Obj halite],
     For phase Phase system [(''phases'', [])] ] @
   for_each per_phase_halite (\<lambda>n.
     [ Call phase ''name'' [],
       For species Species phase [(''species'', [])] ] @
     repeat n [ Call species ''name'' [] ]) @
   [ For species Species system [(''species'', [])] ] @
   repeat n_halite [ Call species ''name'' [] ] @
   [ For element Element system [(''elements'', [])] ] @
   repeat n_elements [ Call element ''symbol'' [] ] @
   [ Call system ''formulaMatrix'' [],
     New solution AqueousPhase [App ''speciate'' [Lit ''H O Na Cl Ca C'']],
     New gas GaseousPhase [],
     New system ChemicalSystem [Obj db, Obj solution, Obj gas],
     Call system ''species'' [],
     For species Species system [(''species'', [])] ] @
   repeat n_speciated
     [ Call species ''name'' [],
       Chain species [(''formula'', []), (''str'', [])],
       Call species ''molarMass'' [] ] @
   [ New solution AqueousPhase
       [Lit ''H2O'', Lit ''CaOH+'', Lit ''CO2'', Lit ''CO3-2'', Lit ''CaCO3'', Lit ''Ca+2'',
        Lit ''Cl-'', Lit ''H+'', Lit ''HCO3-'', Lit ''Na+'', Lit ''OH-''],
     New gas GaseousPhase [],
     New system ChemicalSystem [Obj db, Obj solution, Obj gas],
     For species Species system [(''species'', [])] ] @
   repeat n_listed [ Call species ''name'' [] ] @
   [ New solution AqueousPhase [App ''speciate'' [Lit ''H O Na Cl Ca Mg C Si Fe Al K S'']],
     New gas GaseousPhase [],
     New pureminerals MineralPhases [],
     New solidsolution MineralPhase [Lit ''Calcite Quartz Gypsum''],
     Call solidsolution ''setName'' [Lit ''SolidSolution''],
     New system ChemicalSystem
       [Obj db, Obj solution, Obj gas, Obj pureminerals, Obj solidsolution],
     For phase Phase system [(''phases'', [])] ] @
   for_each per_phase_minerals (\<lambda>n.
     [ Call phase ''name'' [],
       For species Species phase [(''species'', [])] ] @
     repeat n [ Call species ''name'' [] ]) @
   [ New condensed CondensedPhases [App ''speciate'' [Lit ''K N O C Ca H S'']],
     New gases GaseousPhase [],
     New system ChemicalSystem [Obj db, Obj gases, Obj condensed],
     For species Species system [(''species'', [])] ] @
   for_each states (\<lambda>a.
     [ Call species ''aggregateState'' [] ] @
     (if a = Gas then [ Call species ''name'' [] ] else [])) @
   [ For species Species system [(''species'', [])] ] @
   for_each states (\<lambda>a.
     [ Call species ''aggregateState'' [] ] @
     (if a = CondensedPhase then [ Call species ''name'' [] ] else []))"

text \<open>\<^verbatim>\<open>databases.ipynb\<close>. The parameters are the numbers of species of the
  database, of its species with the elements H, O, C and Ca, of its gases, and of its
  elements.\<close>

definition databases :: "nat \<Rightarrow> nat \<Rightarrow> nat \<Rightarrow> nat \<Rightarrow> trace" where
  "databases n_all n_hocca n_gas n_elements =
   [ New db PhreeqcDatabase [Lit ''pitzer.dat''],
     Bind species_list SpeciesList db ''species'' [],
     For species Species species_list [] ] @
   repeat n_all
     [ Call species ''name'' [],
       Chain species [(''formula'', []), (''str'', [])],
       Call species ''molarMass'' [] ] @
   [ BindChain species_list SpeciesList db
       [(''species'', []), (''withElements'', [Lit ''H O C Ca''])],
     For species Species species_list [] ] @
   repeat n_hocca [ Call species ''name'' [] ] @
   [ Bind species_list SpeciesList db ''speciesWithAggregateState''
       [App ''AggregateState.Gas'' []],
     For species Species species_list [] ] @
   repeat n_gas [ Call species ''name'' [] ] @
   [ For element Element db [(''elements'', [])] ] @
   repeat n_elements
     [ Call element ''symbol'' [],
       Call element ''molarMass'' [] ] @
   [ BindChain species Species db [(''species'', []), (''getWithName'', [Lit ''Gypsum''])],
     Call species ''name'' [],
     Call species ''formula'' [],
     Call species ''charge'' [],
     Call species ''aggregateState'' [],
     Call species ''molarMass'' [] ]"

text \<open>\<^verbatim>\<open>defining-materials.ipynb\<close>. \<^verbatim>\<open>mix = brine(1.0, "kg") + rock(10.0, "g")\<close>
  calls the two materials to scale them and adds the results; the sum is recorded as a
  material made from \<^verbatim>\<open>brine\<close> and \<^verbatim>\<open>rock\<close>.\<close>

definition defining_materials :: trace where
  "defining_materials =
   [ New db PhreeqcDatabase [Lit ''phreeqc.dat''],
     New solution AqueousPhase [],
     Call solution ''setActivityModel'' [App ''ActivityModelPitzerHMW'' []],
     New minerals MineralPhases [Lit ''Halite Calcite Dolomite Quartz''],
     New system ChemicalSystem [Obj db, Obj solution, Obj minerals],
     New state ChemicalState [Obj system],
     Call state ''set'' [Lit ''H2O''],
     Call state ''set'' [Lit ''Na+''],
     Call state ''set'' [Lit ''Ca+2''],
     Call state ''set'' [Lit ''Mg+2''],
     Call state ''set'' [Lit ''Cl-''],
     Call state ''set'' [Lit ''CO2''],
     Call state ''set'' [Lit ''Quartz''],
     Call state ''set'' [Lit ''Calcite''],
     Call state ''scaleFluidMass'' [],
     Call state ''scaleSolidMass'' [],
     Call state ''temperature'' [],
     Call state ''pressure'' [],
     Fun ''equilibrate'' [Obj state],
     Print [Obj state],
     New brine Material [Obj system],
     Call brine ''add'' [Lit ''H2O''],
     Call brine ''add'' [Lit ''NaCl''],
     Call brine ''add'' [Lit ''CaCl2''],
     Call brine ''add'' [Lit ''MgCl2''],
     Call brine ''add'' [Lit ''CO2''],
     New rock Material [Obj system],
     Call rock ''add'' [Lit ''SiO2''],
     Call rock ''add'' [Lit ''CaCO3''],
     Call brine ''__call__'' [],
     Call rock ''__call__'' [],
     FunBind mix Material ''__add__'' [Obj brine, Obj rock],
     Bind state ChemicalState mix ''equilibrate'' [],
     Print [Obj state] ]"

subsection \<open>tutorials/exchange\<close>

text \<open>\<^verbatim>\<open>ion-exchnage-mix-porewater-extractant.ipynb\<close>. The first code cell ends with
  the expression \<^verbatim>\<open>solution.setActivityModel(ActivityModelHKF())\<close>, whose value, the
  phase, the notebook displays.\<close>

definition ion_exchange_mix_porewater_extractant :: trace where
  "ion_exchange_mix_porewater_extractant =
   [ New db PhreeqcDatabase [Lit ''phreeqc.dat''],
     New solution AqueousPhase [Lit ''H2O Na+ Cl- H+ OH- K+ Ca+2 Mg+2''],
     Call solution ''setActivityModel'' [App ''ActivityModelHKF'' []],
     Print [Obj solution],
     New exchange IonExchangePhase [Lit ''CaX2 MgX2 NaX''],
     Call exchange ''setActivityModel'' [App ''ActivityModelIonExchangeVanselow'' []],
     New system ChemicalSystem [Obj db, Obj solution, Obj exchange],
     New aqprops AqueousProps [Obj system],
     New exprops IonExchangeProps [Obj system],
     New solver EquilibriumSolver [Obj system],
     New state ChemicalState [Obj system],
     Call state ''setTemperature'' [],
     Call state ''setPressure'' [],
     Call state ''add'' [Lit ''H2O''],
     Call state ''add'' [Lit ''Na+''],
     Call state ''add'' [Lit ''Mg+2''],
     Call state ''add'' [Lit ''Ca+2''],
     Call state ''add'' [Lit ''NaX''],
     Call state ''add'' [Lit ''Na+''],
     Call solver ''solve'' [Obj state],
     Call aqprops ''update'' [Obj state],
     Call exprops ''update'' [Obj state],
     Call aqprops ''ionicStrength'' [],
     Call state ''charge'' [],
     Call aqprops ''pH'' [],
     Call exprops ''speciesAmount'' [Lit ''CaX2''],
     Call exprops ''speciesAmount'' [Lit ''MgX2''],
     Call exprops ''speciesAmount'' [Lit ''NaX''],
     Call state ''add'' [Lit ''H2O''],
     Call state ''add'' [Lit ''Na+''],
     Call state ''add'' [Lit ''Cl-''],
     Call solver ''solve'' [Obj state],
     Call aqprops ''update'' [Obj state],
     Call exprops ''update'' [Obj state],
     Call aqprops ''ionicStrength'' [],
     Call state ''charge'' [],
     Call aqprops ''pH'' [],
     Call exprops ''speciesAmount'' [Lit ''CaX2''],
     Call exprops ''speciesAmount'' [Lit ''MgX2''],
     Call exprops ''speciesAmount'' [Lit ''NaX''],
     Call aqprops ''speciesMolality'' [Lit ''Ca+2''],
     Call aqprops ''speciesMolality'' [Lit ''Mg+2''],
     Call aqprops ''speciesMolality'' [Lit ''Cl-''],
     Call aqprops ''speciesMolality'' [Lit ''Na+''] ]"

subsection \<open>tutorials/solubility\<close>

text \<open>\<^verbatim>\<open>solubility-calcite-in-water-rainwater.ipynb\<close>. The Python functions
  \<^verbatim>\<open>water\<close>, \<^verbatim>\<open>rainwater\<close> and \<^verbatim>\<open>seawater\<close> create and return a state;
  \<^verbatim>\<open>solubility_of_calcite(state, T, P, tag)\<close> takes the events of evaluating its
  \<^verbatim>\<open>state\<close> argument and the tag. It uses the global \<^verbatim>\<open>conditions\<close>,
  \<^verbatim>\<open>solver\<close> and \<^verbatim>\<open>aprops\<close>, and a local constant \<^verbatim>\<open>n0Calcite = 10.0\<close>.\<close>

definition water :: trace where
  "water =
   [ New state ChemicalState [Obj system],
     Call state ''add'' [Lit ''H2O''] ]"

definition rainwater :: trace where
  "rainwater =
   [ New state ChemicalState [Obj system],
     Call state ''set'' [Lit ''H2O''],
     Call state ''set'' [Lit ''Na+''],
     Call state ''set'' [Lit ''K+''],
     Call state ''set'' [Lit ''Ca+2''],
     Call state ''set'' [Lit ''Mg+2''],
     Call state ''set'' [Lit ''Cl-''],
     Call state ''set'' [Lit ''SO4-2''],
     Call state ''set'' [Lit ''NO3-''],
     Call state ''set'' [Lit ''NH4+''],
     Call state ''set'' [Lit ''CO2''] ]"

definition seawater :: trace where
  "seawater =
   [ New state ChemicalState [Obj system],
     Call state ''setTemperature'' [],
     Call state ''setPressure'' [],
     Call state ''add'' [Lit ''H2O''],
     Call state ''add'' [Lit ''Ca+2''],
     Call state ''add'' [Lit ''Mg+2''],
     Call state ''add'' [Lit ''Na+''],
     Call state ''add'' [Lit ''K+''],
     Call state ''add'' [Lit ''Cl-''],
     Call state ''add'' [Lit ''HCO3-''],
     Call state ''add'' [Lit ''SO4-2''] ]"

definition solubility_of_calcite :: "trace \<Rightarrow> nat \<Rightarrow> nat \<Rightarrow> string \<Rightarrow> trace" where
  "solubility_of_calcite st T P tag =
   st @
   [ Call conditions ''temperature'' [],
     Call conditions ''pressure'' [],
     Bind res EquilibriumResult solver ''solve'' [Obj state, Obj conditions],
     Call state ''set'' [Lit ''Calcite''],
     Bind res EquilibriumResult solver ''solve'' [Obj state],
     Call aprops ''update'' [Obj state],
     Call state ''speciesAmount'' [Lit ''Calcite''] ] @
   (if tag = ''water'' then [ Call aprops ''pH'' [] ]
    else if tag = ''rainwater'' then [ Call aprops ''pH'' [] ]
    else [])"

definition temperatures_calcite :: "nat list" where
  "temperatures_calcite = arange 20 91 5"

definition pressures_calcite :: "nat list" where
  "pressures_calcite = [1, 10, 100]"

definition nsteps :: nat where
  "nsteps = 50"

definition solubility_calcite_in_water_rainwater :: trace where
  "solubility_calcite_in_water_rainwater =
   [ New db PhreeqcDatabase [Lit ''phreeqc.dat''],
     New aqueousphase AqueousPhase [App ''speciate'' [Lit ''H O C Ca Mg K Cl Na S N'']],
     Call aqueousphase ''setActivityModel''
       [App ''chain'' [App ''ActivityModelHKF'' [], App ''ActivityModelDrummond'' [Lit ''CO2'']]],
     New gaseousphase GaseousPhase [Lit ''CO2(g)''],
     Call gaseousphase ''setActivityModel'' [App ''ActivityModelPengRobinson'' []],
     New mineral MineralPhase [Lit ''Calcite''],
     New system ChemicalSystem
       [Obj db, Obj aqueousphase, Obj gaseousphase, Obj mineral],
     New specs EquilibriumSpecs [Obj system],
     Call specs ''temperature'' [],
     Call specs ''pressure'' [],
     Call specs ''charge'' [],
     Call specs ''openTo'' [Lit ''Cl-''],
     New conditions EquilibriumConditions [Obj specs],
     Call conditions ''charge'' [],
     New solver EquilibriumSolver [Obj specs],
     New aprops AqueousProps [Obj system] ] @
   for_each temperatures_calcite (\<lambda>T.
     for_each pressures_calcite (\<lambda>P.
       solubility_of_calcite water T P ''water'' @
       solubility_of_calcite rainwater T P ''rainwater'')) @
   for_each [0..<nsteps] (\<lambda>i.
     [ Call conditions ''temperature'' [],
       Call conditions ''pressure'' [] ] @
     seawater @
     [ Call state ''set'' [Lit ''CO2(g)''],
       Bind res EquilibriumResult solver ''solve'' [Obj state, Obj conditions],
       Call state ''set'' [Lit ''Calcite''],
       Bind res EquilibriumResult solver ''solve'' [Obj state],
       Call aprops ''update'' [Obj state],
       Call state ''speciesAmount'' [Lit ''Calcite''],
       Call state ''speciesAmount'' [Lit ''CO2''],
       Call aprops ''pH'' [] ])"

text \<open>The notebook ``Opening bottle with sparkling water'', second document of
  \<^verbatim>\<open>solubility-calcite-in-water-rainwater.ipynb\<close>. The loop ranges over the 100
  pressures of \<^verbatim>\<open>np.linspace(openP, closedP, num=100)\<close>, given here by their
  indices.\<close>

definition pressures_bottle :: "nat list" where
  "pressures_bottle = [0..<100]"

definition opening_bottle_with_sparkling_water :: trace where
  "opening_bottle_with_sparkling_water =
   [ New db PhreeqcDatabase [Lit ''phreeqc.dat''],
     New aqueousphase AqueousPhase [App ''speciate'' [Lit ''H O C'']],
     Call aqueousphase ''setActivityModel''
       [App ''chain'' [App ''ActivityModelHKF'' [], App ''ActivityModelDrummond'' [Lit ''CO2'']]],
     New gaseousphase GaseousPhase [Lit ''CO2(g)''],
     Call gaseousphase ''setActivityModel'' [App ''ActivityModelPengRobinson'' []],
     New system ChemicalSystem [Obj db, Obj aqueousphase, Obj gaseousphase],
     New solver EquilibriumSolver [Obj system] ] @
   for_each pressures_bottle (\<lambda>P.
     [ New state ChemicalState [Obj system],
       Call state ''setTemperature'' [],
       Call state ''setPressure'' [],
       Call state ''add'' [Lit ''H2O''],
       Call state ''add'' [Lit ''CO2''],
       Bind res EquilibriumResult solver ''solve'' [Obj state],
       Call state ''speciesAmount'' [Lit ''CO2(g)''] ])"

text \<open>\<^verbatim>\<open>solubility-tablesalt-water.ipynb\<close>\<close>

definition solubility_tablesalt_water :: trace where
  "solubility_tablesalt_water =
   [ New db PhreeqcDatabase [Lit ''phreeqc.dat''],
     New aqueousphase AqueousPhase
       [App ''speciate'' [Lit ''H O Na Cl C''], App ''exclude'' [Lit ''organic'']],
     Call aqueousphase ''setActivityModel''
       [App ''chain'' [App ''ActivityModelHKF'' [], App ''ActivityModelDrummond'' [Lit ''CO2'']]],
     New mineral MineralPhase [Lit ''Halite''],
     New system ChemicalSystem [Obj db, Obj aqueousphase, Obj mineral],
     New state ChemicalState [Obj system],
     Call state ''setTemperature'' [],
     Call state ''setPressure'' [],
     Call state ''set'' [Lit ''H2O''],
     Call state ''set'' [Lit ''Halite''],
     FunBind res EquilibriumResult ''equilibrate'' [Obj state],
     Print [Obj state],
     Call state ''set'' [Lit ''Halite''],
     Call state ''speciesAmount'' [Lit ''Halite''],
     FunBind res EquilibriumResult ''equilibrate'' [Obj state],
     Call state ''speciesAmount'' [Lit ''Halite''] ]"

text \<open>The notebook ``Gypsum/anhydrite solubility in water'', second document of
  \<^verbatim>\<open>solubility-tablesalt-water.ipynb\<close>. \<^verbatim>\<open>water_problem(T, P)\<close> creates and returns
  a state.\<close>

definition water_problem :: "nat \<Rightarrow> nat \<Rightarrow> trace" where
  "water_problem T P =
   [ New state ChemicalState [Obj system],
     Call state ''temperature'' [],
     Call state ''pressure'' [],
     Call state ''add'' [Lit ''H2O''] ]"

definition temperatures_anhydrite :: "nat list" where
  "temperatures_anhydrite = arange 0 91 5"

definition pressures_anhydrite :: "nat list" where
  "pressures_anhydrite = [1, 100, 1000]"

definition solubility_anhydrite :: trace where
  "solubility_anhydrite =
   [ New db PhreeqcDatabase [Lit ''phreeqc.dat''],
     New aqueousphase AqueousPhase
       [App ''speciate'' [Lit ''H O Ca S''], App ''exclude'' [Lit ''organic'']],
     Call aqueousphase ''setActivityModel'' [App ''ActivityModelHKF'' []],
     New minerals MineralPhases [Lit ''Anhydrite''],
     New system ChemicalSystem [Obj db, Obj aqueousphase, Obj minerals],
     New props ChemicalProps [Obj system],
     New aprops AqueousProps [Obj system],
     New solver EquilibriumSolver [Obj system],
     Bind reaction Reaction db ''reaction'' [Lit ''Anhydrite = SO4-2 + Ca+2''] ] @
   for_each pressures_anhydrite (\<lambda>P.
     for_each temperatures_anhydrite (\<lambda>T.
       water_problem T P @
       [ Call solver ''solve'' [Obj state],
         Call state ''set'' [Lit ''Anhydrite''],
         Call solver ''solve'' [Obj state],
         Call props ''update'' [Obj state],
         Call aprops ''update'' [Obj state],
         Call aprops ''ionicStrength'' [],
         Call aprops ''pH'' [],
         Call aprops ''saturationIndexLg'' [Lit ''Anhydrite''],
         Call reaction ''props'' [],
         Call state ''speciesAmount'' [Lit ''Anhydrite''] ]))"

subsection \<open>tutorials/applications\<close>

text \<open>\<^verbatim>\<open>evian-water-analysis.ipynb\<close>. Each amount is a mass divided by
  \<^verbatim>\<open>db.species(name).molarMass()\<close>, evaluated before \<^verbatim>\<open>state.set\<close> is called.\<close>

definition evian_water_analysis :: trace where
  "evian_water_analysis =
   [ New db PhreeqcDatabase [Lit ''phreeqc.dat''],
     New aqueousphase AqueousPhase [App ''speciate'' [Lit ''C Ca Cl H K Mg N Na O S Si'']],
     Call aqueousphase ''setActivityModel''
       [App ''chain'' [App ''ActivityModelHKF'' [], App ''ActivityModelDrummond'' [Lit ''CO2'']]],
     New gaseousphase GaseousPhase [Lit ''CO2(g)''],
     Call gaseousphase ''setActivityModel'' [App ''ActivityModelPengRobinson'' []],
     New minerals MineralPhases [],
     New system ChemicalSystem
       [Obj db, Obj aqueousphase, Obj gaseousphase, Obj minerals],
     New specs EquilibriumSpecs [Obj system],
     Call specs ''temperature'' [],
     Call specs ''pressure'' [],
     Call specs ''pH'' [],
     New solver EquilibriumSolver [Obj specs],
     New conditions EquilibriumConditions [Obj specs],
     Call conditions ''temperature'' [],
     Call conditions ''pressure'' [],
     Call conditions ''pH'' [],
     New state ChemicalState [Obj system],
     Call state ''set'' [Lit ''H2O''],
     Chain db [(''species'', [Lit ''Ca+2'']), (''molarMass'', [])],
     Call state ''set'' [Lit ''Ca+2''],
     Chain db [(''species'', [Lit ''Cl-'']), (''molarMass'', [])],
     Call state ''set'' [Lit ''Cl-''],
     Chain db [(''species'', [Lit ''HCO3-'']), (''molarMass'', [])],
     Call state ''set'' [Lit ''HCO3-''],
     Chain db [(''species'', [Lit ''Mg+2'']), (''molarMass'', [])],
     Call state ''set'' [Lit ''Mg+2''],
     Chain db [(''species'', [Lit ''NO3-'']), (''molarMass'', [])],
     Call state ''set'' [Lit ''NO3-''],
     Chain db [(''species'', [Lit ''K+'']), (''molarMass'', [])],
     Call state ''set'' [Lit ''K+''],
     Chain db [(''species'', [Lit ''Na+'']), (''molarMass'', [])],
     Call state ''set'' [Lit ''Na+''],
     Chain db [(''species'', [Lit ''SO4-2'']), (''molarMass'', [])],
     Call state ''set'' [Lit ''SO4-2''],
     Chain db [(''species'', [Lit ''SiO2(a)'']), (''molarMass'', [])],
     Call state ''set'' [Lit ''SiO2(a)''],
     Bind res EquilibriumResult solver ''solve'' [Obj state, Obj conditions],
     New props AqueousProps [Obj state],
     Call props ''saturationIndexLg'' [Lit ''Calcite''],
     Call props ''saturationIndexLg'' [Lit ''Aragonite''],
     Call props ''saturationIndexLg'' [Lit ''Dolomite''],
     Call props ''saturationIndexLg'' [Lit ''Quartz''],
     Call props ''saturationIndexLg'' [Lit ''Chalcedony''],
     Print [Obj props] ]"

text \<open>\<^verbatim>\<open>ph-dependence-on-co2-addition-in-seawater.ipynb\<close>\<close>

definition ph_dependence_on_co2_addition_in_seawater :: trace where
  "ph_dependence_on_co2_addition_in_seawater =
   [ New db PhreeqcDatabase [Lit ''phreeqc.dat''],
     New aqueousphase AqueousPhase [App ''speciate'' [Lit ''H O C Ca Mg K Cl Na S N'']],
     Call aqueousphase ''setActivityModel''
       [App ''chain'' [App ''ActivityModelHKF'' [], App ''ActivityModelDrummond'' [Lit ''CO2'']]],
     New gaseousphase GaseousPhase [Lit ''CO2(g)''],
     Call gaseousphase ''setActivityModel'' [App ''ActivityModelPengRobinson'' []],
     New system ChemicalSystem [Obj db, Obj aqueousphase, Obj gaseousphase],
     New solver EquilibriumSolver [Obj system],
     New state ChemicalState [Obj system],
     Call state ''setTemperature'' [],
     Call state ''setPressure'' [],
     Call state ''add'' [Lit ''H2O''],
     Call state ''add'' [Lit ''Ca+2''],
     Call state ''add'' [Lit ''Mg+2''],
     Call state ''add'' [Lit ''Na+''],
     Call state ''add'' [Lit ''K+''],
     Call state ''add'' [Lit ''Cl-''],
     Call state ''add'' [Lit ''HCO3-''],
     Call state ''add'' [Lit ''SO4-2''],
     Call solver ''solve'' [Obj state],
     New aprops AqueousProps [Obj state],
     Call aprops ''pH'' [],
     Call aprops ''pH'' [] ] @
   for_each [0..<nsteps] (\<lambda>i.
     [ Call state ''add'' [Lit ''CO2(g)''],
       Call solver ''solve'' [Obj state],
       Call aprops ''update'' [Obj state],
       Call aprops ''pH'' [] ])"

text \<open>The notebook ``Computing aqueous properties'', second document of
  \<^verbatim>\<open>ph-dependence-on-co2-addition-in-seawater.ipynb\<close>.\<close>

definition computing_aqueous_properties :: trace where
  "computing_aqueous_properties =
   [ New db PhreeqcDatabase [Lit ''phreeqc.dat''],
     New solution AqueousPhase [App ''speciate'' [Lit ''H O Na Cl C Ca Si'']],
     Call solution ''setActivityModel'' [App ''ActivityModelPitzerHMW'' []],
     New gases GaseousPhase [Lit ''CO2(g) H2O(g)''],
     Call gases ''setActivityModel'' [App ''ActivityModelPengRobinson'' []],
     New minerals MineralPhases [],
     New system ChemicalSystem [Obj db, Obj solution, Obj gases, Obj minerals],
     New state ChemicalState [Obj system],
     Call state ''temperature'' [],
     Call state ''pressure'' [],
     Call state ''set'' [Lit ''H2O''],
     Call state ''set'' [Lit ''Na+''],
     Call state ''set'' [Lit ''Cl-''],
     Call state ''set'' [Lit ''CO2''],
     Call state ''set'' [Lit ''Calcite''],
     Call state ''set'' [Lit ''Quartz''],
     Fun ''equilibrate'' [Obj state],
     Print [Obj state],
     New aprops AqueousProps [Obj state],
     Print [Obj aprops] ]"

text \<open>The notebook ``Computing thermodynamic properties'', third document of
  \<^verbatim>\<open>ph-dependence-on-co2-addition-in-seawater.ipynb\<close>. The loop ranges over the 100
  temperatures of \<^verbatim>\<open>np.linspace(25.0, 300.0, 100) + 273.15\<close>, given here by their
  indices.\<close>

definition temperatures_saturation :: "nat list" where
  "temperatures_saturation = [0..<100]"

definition computing_thermodynamic_properties :: trace where
  "computing_thermodynamic_properties =
   [ New db PhreeqcDatabase [Lit ''phreeqc.dat''],
     Bind CO2aq Species db ''species'' [Lit ''CO2''],
     Call CO2aq ''props'' [] ] @
   for_each temperatures_saturation (\<lambda>T.
     [ Fun ''waterSaturationPressureWagnerPruss'' [],
       Bind props StandardThermoProps CO2aq ''props'' [] ]) @
   [ Bind rxn Reaction db ''reaction'' [Lit ''H+ + OH- = H2O''],
     Bind rprops ReactionThermoProps rxn ''props'' [],
     Print [Obj rprops] ]"

text \<open>\<^verbatim>\<open>ph-dependence-on-contaminants-in-water.ipynb\<close>\<close>

definition ph_dependence_on_contaminants_in_water :: trace where
  "ph_dependence_on_contaminants_in_water =
   [ New db PhreeqcDatabase [Lit ''phreeqc.dat''],
     New aqueousphase AqueousPhase [App ''speciate'' [Lit ''H O Na Cl N'']],
     Call aqueousphase ''setActivityModel'' [App ''ActivityModelHKF'' []],
     New system ChemicalSystem [Obj db, Obj aqueousphase],
     New state ChemicalState [Obj system],
     Call state ''setTemperature'' [],
     Call state ''setPressure'' [],
     Call state ''set'' [Lit ''H2O''],
     New solver EquilibriumSolver [Obj system],
     Call solver ''solve'' [Obj state],
     New aprops AqueousProps [Obj state],
     Call aprops ''pH'' [],
     Call aprops ''pH'' [] ] @
   for_each [0..<nsteps] (\<lambda>i.
     [ Call state ''add'' [Lit ''H+''],
       Call state ''add'' [Lit ''Cl-''],
       Call solver ''solve'' [Obj state],
       Call aprops ''update'' [Obj state],
       Call aprops ''pH'' [] ]) @
   [ New state ChemicalState [Obj system],
     Call state ''setTemperature'' [],
     Call state ''setPressure'' [],
     Call state ''set'' [Lit ''H2O''],
     Call solver ''solve'' [Obj state],
     Call aprops ''update'' [Obj state],
     Call aprops ''pH'' [] ] @
   for_each [0..<nsteps] (\<lambda>i.
     [ Call state ''add'' [Lit ''NH3''],
       Call solver ''solve'' [Obj state],
       Call aprops ''update'' [Obj state],
       Call aprops ''pH'' [] ])"

subsection \<open>All notebooks of the repository\<close>

text \<open>\<^verbatim>\<open>overview.ipynb\<close> has no code cell.\<close>

definition overview :: trace where
  "overview = []"

definition notebooks :: "answers \<Rightarrow> trace list" where
  "notebooks a =
   [ overview,
     databases (n_species_pitzer a) (n_species_hocca a) (n_gases_pitzer a) (n_elements_pitzer a),
     creating_chemical_states (n_surfaces a),
     defining_chemical_systems (species_per_phase_halite a) (n_species_halite a)
       (n_elements_halite a) (n_species_speciated a) (n_species_listed a)
       (species_per_phase_minerals a) (states_condensed a),
     defining_materials,
     specifying_activity_models (n_species_nacl a) (n_species_setschenow a) (n_species_gases a),
     computing_chemical_properties,
     computing_aqueous_properties,
     computing_thermodynamic_properties,
     equilibrium_basics (basics_succeeded a),
     equilibrium_with_constraints,
     equilibrium_with_fixed_ph,
     equilibrium_with_fixed_ph_charge_balance (charge_balance_succeeded a),
     equilibrium_with_fixed_fugacity (fugacity_succeeded a),
     equilibrium_with_fixed_phase_amount,
     equilibrium_with_fixed_volume_internal_energy,
     equilibrium_with_custom_constraints,
     ion_exchange_mix_porewater_extractant,
     solubility_calcite_in_water_rainwater,
     opening_bottle_with_sparkling_water,
     solubility_tablesalt_water,
     solubility_anhydrite,
     evian_water_analysis,
     ph_dependence_on_co2_addition_in_seawater,
     ph_dependence_on_contaminants_in_water ]"

section \<open>What a run does to the objects of the pipeline\<close>

text \<open>
  The analysis state records, for the variables bound so far: the class of the object
  a variable holds; for an \<open>EquilibriumSpecs\<close> object the inputs declared on it and
  the number of \<open>EquilibriumConditions\<close> objects constructed from it; for an
  \<open>EquilibriumConditions\<close> object the inputs its specs object declared when the
  conditions were constructed; for a phase object whether it has already been
  passed to a \<open>ChemicalSystem\<close> constructor; and the variables that hold an object
  obtained from a chemical system, that is, returned by a method of a system or of an
  object obtained from a system (a phase, a species or an element of the system).
  Association lists are updated in place, so that running a loop body twice from the
  same bindings gives the same state.
\<close>

type_synonym input = "string \<times> string list"

record analysis =
  env :: "(var \<times> cls) list"
  inputs :: "(var \<times> input list) list"
  nconds :: "(var \<times> nat) list"
  consumed :: "(var \<times> bool) list"
  from_system :: "var list"

definition init :: analysis where
  "init = \<lparr>env = [], inputs = [], nconds = [], consumed = [], from_system = []\<rparr>"

definition phase_classes :: "cls list" where
  "phase_classes = [AqueousPhase, GaseousPhase, MineralPhase, MineralPhases, SolidPhase,
     IonExchangePhase, CondensedPhases]"

definition props_classes :: "cls list" where
  "props_classes = [ChemicalProps, AqueousProps, IonExchangeProps]"

fun objs :: "arg \<Rightarrow> var list" where
  "objs (Obj v) = [v]"
| "objs (Lit s) = []"
| "objs (App f as) = concat (map objs as)"

fun lits :: "arg list \<Rightarrow> string list" where
  "lits [] = []"
| "lits (Lit s # as) = s # lits as"
| "lits (a # as) = lits as"

definition class_of :: "analysis \<Rightarrow> var \<Rightarrow> cls option" where
  "class_of s v = map_of (env s) v"

definition has_class :: "analysis \<Rightarrow> cls list \<Rightarrow> var \<Rightarrow> bool" where
  "has_class s cs v = (case class_of s v of Some c \<Rightarrow> c \<in> set cs | None \<Rightarrow> False)"

definition inputs_of :: "analysis \<Rightarrow> var \<Rightarrow> input list" where
  "inputs_of s v = (case map_of (inputs s) v of Some is \<Rightarrow> is | None \<Rightarrow> [])"

definition nconds_of :: "analysis \<Rightarrow> var \<Rightarrow> nat" where
  "nconds_of s v = (case map_of (nconds s) v of Some n \<Rightarrow> n | None \<Rightarrow> 0)"

definition is_consumed :: "analysis \<Rightarrow> var \<Rightarrow> bool" where
  "is_consumed s v = (case map_of (consumed s) v of Some b \<Rightarrow> b | None \<Rightarrow> False)"

text \<open>A variable holds a chemical system or an object obtained from one.\<close>

definition part_of_system :: "analysis \<Rightarrow> var \<Rightarrow> bool" where
  "part_of_system s v = (has_class s [ChemicalSystem] v \<or> v \<in> set (from_system s))"

text \<open>The methods of \<open>EquilibriumSpecs\<close> that declare an input, and the input they
  declare: \<^verbatim>\<open>specs.addInput("V")\<close> declares the input \<open>V\<close>, \<^verbatim>\<open>specs.pH()\<close> the
  input \<open>pH\<close>, \<^verbatim>\<open>specs.fugacity("CO2(g)")\<close> the fugacity of that gas.
  \<^verbatim>\<open>openTo\<close> and \<^verbatim>\<open>addConstraint\<close> declare no input.\<close>

definition declares :: "string \<Rightarrow> arg list \<Rightarrow> input option" where
  "declares m as =
     (if m = ''addInput'' then (case lits as of s # _ \<Rightarrow> Some (s, []) | [] \<Rightarrow> None)
      else if m \<in> set [''temperature'', ''pressure'', ''volume'', ''internalEnergy'', ''pH'',
                        ''charge'', ''fugacity'', ''phaseAmount'']
      then Some (m, lits as)
      else None)"

text \<open>The methods of \<open>EquilibriumConditions\<close>: the four bound setters name the variable
  they bound; \<^verbatim>\<open>conditions.set("V", V0)\<close> gives a value to the input \<open>V\<close>; every
  other method gives a value to the input of its own name.\<close>

definition sets_bound :: "string \<Rightarrow> string option" where
  "sets_bound m =
     (if m = ''setLowerBoundTemperature'' \<or> m = ''setUpperBoundTemperature'' then Some ''temperature''
      else if m = ''setLowerBoundPressure'' \<or> m = ''setUpperBoundPressure'' then Some ''pressure''
      else None)"

definition sets_value :: "string \<Rightarrow> arg list \<Rightarrow> input option" where
  "sets_value m as =
     (if sets_bound m \<noteq> None then None
      else if m = ''set'' then (case lits as of s # _ \<Rightarrow> Some (s, []) | [] \<Rightarrow> None)
      else Some (m, lits as))"

definition bind :: "var \<Rightarrow> cls \<Rightarrow> analysis \<Rightarrow> analysis" where
  "bind v c s = s\<lparr>env := AList.update v c (env s)\<rparr>"

definition call :: "var \<Rightarrow> string \<Rightarrow> arg list \<Rightarrow> analysis \<Rightarrow> analysis" where
  "call v m as s =
     (if has_class s [EquilibriumSpecs] v then
        (case declares m as of
           Some i \<Rightarrow> s\<lparr>inputs := AList.update v (inputs_of s v @ [i]) (inputs s)\<rparr>
         | None \<Rightarrow> s)
      else s)"

definition construct :: "var \<Rightarrow> cls \<Rightarrow> arg list \<Rightarrow> analysis \<Rightarrow> analysis" where
  "construct v c as s =
     (if c = EquilibriumSpecs then
        s\<lparr>inputs := AList.update v [] (inputs s), nconds := AList.update v 0 (nconds s)\<rparr>
      else if c = EquilibriumConditions then
        (case as of
           [Obj x] \<Rightarrow> s\<lparr>inputs := AList.update v (inputs_of s x) (inputs s),
                          nconds := AList.update x (Suc (nconds_of s x)) (nconds s)\<rparr>
         | _ \<Rightarrow> s)
      else if c \<in> set phase_classes then
        s\<lparr>consumed := AList.update v False (consumed s)\<rparr>
      else if c = ChemicalSystem then
        s\<lparr>consumed := fold (\<lambda>x. AList.update x True)
                           (filter (has_class s phase_classes) (concat (map objs as))) (consumed s)\<rparr>
      else s)"

text \<open>The first method of a chain is called on the variable itself.\<close>

definition head_call :: "var \<Rightarrow> link list \<Rightarrow> analysis \<Rightarrow> analysis" where
  "head_call v ls s = (case ls of [] \<Rightarrow> s | (m, as) # _ \<Rightarrow> call v m as s)"

text \<open>\<open>fetched w v\<close>: the variable \<open>w\<close> is assigned what a method of \<open>v\<close>, or a
  chain of methods that starts at \<open>v\<close>, returns; \<open>created w\<close>: it is assigned a new
  object or the result of a free function.\<close>

definition fetched :: "var \<Rightarrow> var \<Rightarrow> analysis \<Rightarrow> analysis" where
  "fetched w v s =
     s\<lparr>from_system := (if part_of_system s v then List.insert w (from_system s)
                        else removeAll w (from_system s))\<rparr>"

definition created :: "var \<Rightarrow> analysis \<Rightarrow> analysis" where
  "created w s = s\<lparr>from_system := removeAll w (from_system s)\<rparr>"

fun step :: "analysis \<Rightarrow> event \<Rightarrow> analysis" where
  "step s (New v c as) = bind v c (construct v c as (created v s))"
| "step s (Call v m as) = call v m as s"
| "step s (Bind w c v m as) = bind w c (call v m as (fetched w v s))"
| "step s (Chain v ls) = head_call v ls s"
| "step s (BindChain w c v ls) = bind w c (head_call v ls (fetched w v s))"
| "step s (For x c v ls) = bind x c (head_call v ls (fetched x v s))"
| "step s (Fun f as) = s"
| "step s (FunBind w c f as) = bind w c (created w s)"
| "step s (SetAttr v a) = s"
| "step s (ReadFlag v) = s"
| "step s (Print as) = s"

text \<open>A property of a run is a check of every event against the state before it:
  \<open>run ok s es\<close> is the state after the events when every check succeeds, and
  \<open>None\<close> as soon as one fails.\<close>

fun run :: "(analysis \<Rightarrow> event \<Rightarrow> bool) \<Rightarrow> analysis \<Rightarrow> trace \<Rightarrow> analysis option" where
  "run ok s [] = Some s"
| "run ok s (e # es) = (if ok s e then run ok (step s e) es else None)"

definition holds :: "(analysis \<Rightarrow> event \<Rightarrow> bool) \<Rightarrow> trace \<Rightarrow> bool" where
  "holds ok es = (run ok init es \<noteq> None)"

section \<open>The order of the stages\<close>

text \<open>
  The stages of the data flow: a database is stage 0, a chemical system stage 1, a
  chemical state or an equilibrium specification stage 2, an equilibrium solver stage 3,
  a call of \<^verbatim>\<open>solve\<close> stage 4, and a chemical or aqueous properties object stage 5.
  A run follows the order of the stages when no event of a stage happens before an
  event of the preceding stage.
\<close>

fun stage :: "event \<Rightarrow> nat option" where
  "stage (New v c as) =
     (if c = PhreeqcDatabase then Some 0
      else if c = ChemicalSystem then Some 1
      else if c = ChemicalState \<or> c = EquilibriumSpecs then Some 2
      else if c = EquilibriumSolver then Some 3
      else if c = ChemicalProps \<or> c = AqueousProps then Some 5
      else None)"
| "stage (Call v m as) = (if m = ''solve'' then Some 4 else None)"
| "stage (Bind w c v m as) = (if m = ''solve'' then Some 4 else None)"
| "stage (Chain v ls) = (if ''solve'' \<in> set (map fst ls) then Some 4 else None)"
| "stage (BindChain w c v ls) = (if ''solve'' \<in> set (map fst ls) then Some 4 else None)"
| "stage e = None"

fun in_stage_order :: "nat list \<Rightarrow> trace \<Rightarrow> bool" where
  "in_stage_order seen [] = True"
| "in_stage_order seen (e # es) =
     (case stage e of
        None \<Rightarrow> in_stage_order seen es
      | Some k \<Rightarrow> (k = 0 \<or> k - 1 \<in> set seen) \<and> in_stage_order (k # seen) es)"

definition follows_data_flow_order :: "trace \<Rightarrow> bool" where
  "follows_data_flow_order es = in_stage_order [] es"

text \<open>
  What every object is built from: a chemical system from a database and phases; a
  state, a specification or a material from a system; conditions from a specification;
  a solver from a system or a specification; properties from a system or a state.
  \<^verbatim>\<open>solve\<close> is called on a solver with a state, or a state and conditions;
  \<^verbatim>\<open>update\<close> on properties with a state; \<^verbatim>\<open>equilibrate\<close> with a state.
  Every variable used holds an object. In a chain the first method is called on the
  variable, and none of the later ones is a method of the pipeline. Besides the results
  of \<^verbatim>\<open>solve\<close>, \<^verbatim>\<open>state.props()\<close> and \<^verbatim>\<open>Material.equilibrate\<close>, the objects that
  methods hand out are the species, elements and reactions of a database, the phases,
  species and elements of a system, and the standard properties of a species or a
  reaction.
\<close>

definition single :: "analysis \<Rightarrow> cls list \<Rightarrow> arg list \<Rightarrow> bool" where
  "single s cs as = (case as of [Obj x] \<Rightarrow> has_class s cs x | _ \<Rightarrow> False)"

definition known :: "analysis \<Rightarrow> arg list \<Rightarrow> bool" where
  "known s as = list_all (\<lambda>v. class_of s v \<noteq> None) (concat (map objs as))"

fun built_from :: "analysis \<Rightarrow> cls \<Rightarrow> arg list \<Rightarrow> bool" where
  "built_from s ChemicalSystem as =
     (case as of
        Obj d # ps \<Rightarrow>
          has_class s [PhreeqcDatabase] d \<and>
          list_all (\<lambda>p. case p of Obj x \<Rightarrow> has_class s phase_classes x | _ \<Rightarrow> False) ps
      | _ \<Rightarrow> False)"
| "built_from s ChemicalState as = single s [ChemicalSystem] as"
| "built_from s Material as = single s [ChemicalSystem] as"
| "built_from s EquilibriumSpecs as = single s [ChemicalSystem] as"
| "built_from s EquilibriumConditions as = single s [EquilibriumSpecs] as"
| "built_from s EquilibriumSolver as = single s [ChemicalSystem, EquilibriumSpecs] as"
| "built_from s ChemicalProps as = single s [ChemicalSystem, ChemicalState] as"
| "built_from s AqueousProps as = single s [ChemicalSystem, ChemicalState] as"
| "built_from s IonExchangeProps as = single s [ChemicalSystem, ChemicalState] as"
| "built_from s EquilibriumResult as = False"
| "built_from s c as = (concat (map objs as) = [])"

definition invoked_on :: "analysis \<Rightarrow> var \<Rightarrow> string \<Rightarrow> arg list \<Rightarrow> bool" where
  "invoked_on s v m as =
     (class_of s v \<noteq> None \<and> known s as \<and>
      (if m = ''solve'' then
         has_class s [EquilibriumSolver] v \<and>
         (case as of
            [Obj st] \<Rightarrow> has_class s [ChemicalState] st
          | [Obj st, Obj c] \<Rightarrow>
              has_class s [ChemicalState] st \<and> has_class s [EquilibriumConditions] c
          | _ \<Rightarrow> False)
       else if m = ''update'' then has_class s props_classes v \<and> single s [ChemicalState] as
       else if m = ''addConstraint'' then single s [ConstraintEquation] as
       else True))"

definition pipeline_methods :: "string list" where
  "pipeline_methods = [''solve'', ''update'', ''addConstraint'', ''equilibrate'']"

fun links_ok :: "analysis \<Rightarrow> var \<Rightarrow> link list \<Rightarrow> bool" where
  "links_ok s v [] = (class_of s v \<noteq> None)"
| "links_ok s v ((m, as) # ls) =
     (invoked_on s v m as \<and>
      list_all (\<lambda>l. fst l \<notin> set pipeline_methods \<and> known s (snd l)) ls)"

text \<open>The class of what a method, or a chain of methods, of an object of the database
  side returns, and the class of the items of the collections that the loops range
  over.\<close>

definition handed_out :: "((cls \<times> string list) \<times> cls) list" where
  "handed_out =
     [ ((PhreeqcDatabase, [''species'']), SpeciesList),
       ((PhreeqcDatabase, [''species'']), Species),
       ((PhreeqcDatabase, [''speciesWithAggregateState'']), SpeciesList),
       ((PhreeqcDatabase, [''species'', ''withElements'']), SpeciesList),
       ((PhreeqcDatabase, [''species'', ''getWithName'']), Species),
       ((PhreeqcDatabase, [''reaction'']), Reaction),
       ((Species, [''props'']), StandardThermoProps),
       ((Reaction, [''props'']), ReactionThermoProps) ]"

definition items :: "((cls \<times> string list) \<times> cls) list" where
  "items =
     [ ((SpeciesList, []), Species),
       ((PhreeqcDatabase, [''elements'']), Element),
       ((ChemicalSystem, [''phases'']), Phase),
       ((ChemicalSystem, [''species'']), Species),
       ((ChemicalSystem, [''elements'']), Element),
       ((Phase, [''species'']), Species) ]"

definition hands_out ::
  "((cls \<times> string list) \<times> cls) list \<Rightarrow> analysis \<Rightarrow> var \<Rightarrow> string list \<Rightarrow> cls \<Rightarrow> bool" where
  "hands_out table s v ms c =
     (case class_of s v of Some d \<Rightarrow> ((d, ms), c) \<in> set table | None \<Rightarrow> False)"

fun well_staged :: "analysis \<Rightarrow> event \<Rightarrow> bool" where
  "well_staged s (New v c as) = built_from s c as"
| "well_staged s (Call v m as) = invoked_on s v m as"
| "well_staged s (Bind w c v m as) =
     (invoked_on s v m as \<and>
      (if m = ''solve'' then c = EquilibriumResult
       else if m = ''props'' \<and> has_class s [ChemicalState] v then c = ChemicalProps
       else if m = ''equilibrate'' then has_class s [Material] v \<and> c = ChemicalState
       else hands_out handed_out s v [m] c))"
| "well_staged s (Chain v ls) = links_ok s v ls"
| "well_staged s (BindChain w c v ls) =
     (links_ok s v ls \<and> hands_out handed_out s v (map fst ls) c)"
| "well_staged s (For x c v ls) =
     (links_ok s v ls \<and> hands_out items s v (map fst ls) c)"
| "well_staged s (Fun f as) =
     (known s as \<and> (if f = ''equilibrate'' then single s [ChemicalState] as else True))"
| "well_staged s (FunBind w c f as) =
     (known s as \<and>
      (if f = ''equilibrate'' then single s [ChemicalState] as \<and> c = EquilibriumResult
       else if f = ''__add__'' then
         list_all (\<lambda>a. case a of Obj x \<Rightarrow> has_class s [Material] x | _ \<Rightarrow> False) as \<and>
         c = Material
       else False))"
| "well_staged s (SetAttr v a) = (class_of s v \<noteq> None)"
| "well_staged s (ReadFlag v) = has_class s [EquilibriumResult] v"
| "well_staged s (Print as) = known s as"

section \<open>Conditions and the inputs of their specification\<close>

text \<open>
  An \<open>EquilibriumConditions\<close> object is constructed from one \<open>EquilibriumSpecs\<close>
  object from which no other conditions object has been constructed. A value is given
  to an input that the specification declares. For a bound there are two readings:
  \<open>conditions_as_claimed\<close> asks that the bounded variable is a declared input;
  \<open>conditions_ok\<close> asks that it is not.
\<close>

definition conditions_built_ok :: "analysis \<Rightarrow> arg list \<Rightarrow> bool" where
  "conditions_built_ok s as =
     (case as of [Obj x] \<Rightarrow> has_class s [EquilibriumSpecs] x \<and> nconds_of s x = 0 | _ \<Rightarrow> False)"

definition value_ok :: "analysis \<Rightarrow> var \<Rightarrow> string \<Rightarrow> arg list \<Rightarrow> bool" where
  "value_ok s v m as =
     (case sets_value m as of Some i \<Rightarrow> i \<in> set (inputs_of s v) | None \<Rightarrow> False)"

definition setter_as_claimed :: "analysis \<Rightarrow> var \<Rightarrow> string \<Rightarrow> arg list \<Rightarrow> bool" where
  "setter_as_claimed s v m as =
     (if has_class s [EquilibriumConditions] v then
        (case sets_bound m of
           Some b \<Rightarrow> (b, []) \<in> set (inputs_of s v)
         | None \<Rightarrow> value_ok s v m as)
      else True)"

definition setter_ok :: "analysis \<Rightarrow> var \<Rightarrow> string \<Rightarrow> arg list \<Rightarrow> bool" where
  "setter_ok s v m as =
     (if has_class s [EquilibriumConditions] v then
        (case sets_bound m of
           Some b \<Rightarrow> (b, []) \<notin> set (inputs_of s v)
         | None \<Rightarrow> value_ok s v m as)
      else True)"

text \<open>In a chain the method called on the variable is the first one.\<close>

definition head_link :: "(var \<Rightarrow> string \<Rightarrow> arg list \<Rightarrow> bool) \<Rightarrow> var \<Rightarrow> link list \<Rightarrow> bool" where
  "head_link P v ls = (case ls of [] \<Rightarrow> True | (m, as) # _ \<Rightarrow> P v m as)"

fun conditions_as_claimed :: "analysis \<Rightarrow> event \<Rightarrow> bool" where
  "conditions_as_claimed s (New v c as) =
     (if c = EquilibriumConditions then conditions_built_ok s as else True)"
| "conditions_as_claimed s (Call v m as) = setter_as_claimed s v m as"
| "conditions_as_claimed s (Bind w c v m as) = setter_as_claimed s v m as"
| "conditions_as_claimed s (Chain v ls) = head_link (setter_as_claimed s) v ls"
| "conditions_as_claimed s (BindChain w c v ls) = head_link (setter_as_claimed s) v ls"
| "conditions_as_claimed s (For x c v ls) = head_link (setter_as_claimed s) v ls"
| "conditions_as_claimed s e = True"

fun conditions_ok :: "analysis \<Rightarrow> event \<Rightarrow> bool" where
  "conditions_ok s (New v c as) =
     (if c = EquilibriumConditions then conditions_built_ok s as else True)"
| "conditions_ok s (Call v m as) = setter_ok s v m as"
| "conditions_ok s (Bind w c v m as) = setter_ok s v m as"
| "conditions_ok s (Chain v ls) = head_link (setter_ok s) v ls"
| "conditions_ok s (BindChain w c v ls) = head_link (setter_ok s) v ls"
| "conditions_ok s (For x c v ls) = head_link (setter_ok s) v ls"
| "conditions_ok s e = True"

section \<open>Chemical systems are not modified\<close>

text \<open>
  What the notebooks do with a chemical system, and with the phases, species and
  elements obtained from it, is to read it:

  \<^item> the methods called on a system or on an object obtained from it, also inside a
    chain, are the accessors listed in \<open>system_accessors\<close>; no attribute of such an
    object is assigned;
  \<^item> a system is handed to the constructor of a state, a material, a specification, a
    solver or a properties object, and to nothing else: it is no argument of a method
    or of a free function and is not printed; an object obtained from it, or a phase
    object that it was constructed from, is no argument at all; and no method named
    \<^verbatim>\<open>system\<close> is called to get a system back from another object;
  \<^item> a method is called on a phase object (to set its activity model or its name) only
    before the object is passed to a \<open>ChemicalSystem\<close> constructor, and every system
    is constructed from phase objects that no earlier system was constructed from.
\<close>

definition system_accessors :: "string list" where
  "system_accessors =
     [''species'', ''phases'', ''elements'', ''formulaMatrix'', ''phase'', ''name'',
      ''formula'', ''str'', ''molarMass'', ''symbol'', ''aggregateState'', ''index'',
      ''size'']"

definition system_readers :: "cls list" where
  "system_readers = [ChemicalState, Material, EquilibriumSpecs, EquilibriumSolver,
     ChemicalProps, AqueousProps, IonExchangeProps]"

definition receiver_ok :: "analysis \<Rightarrow> var \<Rightarrow> string list \<Rightarrow> bool" where
  "receiver_ok s v ms =
     (''system'' \<notin> set ms \<and>
      (if part_of_system s v then list_all (\<lambda>m. m \<in> set system_accessors) ms
       else if has_class s phase_classes v then \<not> is_consumed s v
       else True))"

definition no_part :: "analysis \<Rightarrow> arg list \<Rightarrow> bool" where
  "no_part s as =
     list_all (\<lambda>x. \<not> part_of_system s x \<and> \<not> is_consumed s x) (concat (map objs as))"

fun system_untouched :: "analysis \<Rightarrow> event \<Rightarrow> bool" where
  "system_untouched s (New v c as) =
     (if c = ChemicalSystem
      then list_all (\<lambda>x. \<not> is_consumed s x)
             (filter (has_class s phase_classes) (concat (map objs as))) \<and>
           no_part s as
      else if c \<in> set system_readers
      then list_all (\<lambda>x. x \<notin> set (from_system s) \<and> \<not> is_consumed s x)
             (concat (map objs as))
      else no_part s as)"
| "system_untouched s (Call v m as) = (receiver_ok s v [m] \<and> no_part s as)"
| "system_untouched s (Bind w c v m as) = (receiver_ok s v [m] \<and> no_part s as)"
| "system_untouched s (Chain v ls) =
     (receiver_ok s v (map fst ls) \<and> no_part s (concat (map snd ls)))"
| "system_untouched s (BindChain w c v ls) =
     (receiver_ok s v (map fst ls) \<and> no_part s (concat (map snd ls)))"
| "system_untouched s (For x c v ls) =
     (receiver_ok s v (map fst ls) \<and> no_part s (concat (map snd ls)))"
| "system_untouched s (Fun f as) = no_part s as"
| "system_untouched s (FunBind w c f as) = no_part s as"
| "system_untouched s (SetAttr v a) =
     (\<not> part_of_system s v \<and> \<not> has_class s phase_classes v)"
| "system_untouched s (ReadFlag v) = (\<not> part_of_system s v)"
| "system_untouched s (Print as) = no_part s as"

section \<open>Solver results\<close>

text \<open>
  An equilibrium calculation is started in three ways: by \<^verbatim>\<open>solver.solve\<close>, by the
  free function \<^verbatim>\<open>equilibrate(state)\<close>, and by the method \<^verbatim>\<open>equilibrate\<close> of a
  material, which returns the state it computed. The claim as stated has the flag of
  the result that \<^verbatim>\<open>solver.solve\<close> returns as the only report of a failure, so that
  every calculation would be started by \<^verbatim>\<open>solver.solve\<close>: \<open>solved_by_solver_only\<close>.
\<close>

fun runs_equilibrate :: "event \<Rightarrow> bool" where
  "runs_equilibrate (Call v m as) = (m = ''equilibrate'')"
| "runs_equilibrate (Bind w c v m as) = (m = ''equilibrate'')"
| "runs_equilibrate (Chain v ls) = (''equilibrate'' \<in> set (map fst ls))"
| "runs_equilibrate (BindChain w c v ls) = (''equilibrate'' \<in> set (map fst ls))"
| "runs_equilibrate (Fun f as) = (f = ''equilibrate'')"
| "runs_equilibrate (FunBind w c f as) = (f = ''equilibrate'')"
| "runs_equilibrate e = False"

definition solved_by_solver_only :: "trace \<Rightarrow> bool" where
  "solved_by_solver_only es = (filter runs_equilibrate es = [])"

text \<open>
  What the notebooks do with a result: the result of a solve is used in one way only,
  its flag \<^verbatim>\<open>optima.succeeded\<close> is read (\<open>result_use_ok\<close>); the flag is read from the
  result that the \<^verbatim>\<open>solver.solve\<close> just before returned
  (\<open>flag_reads_follow_solve\<close>); and every such read is followed at once by a
  \<^verbatim>\<open>print\<close> (\<open>flag_reads_printed\<close>), whose arguments are \<open>flag_message\<close>.
\<close>

definition no_result :: "analysis \<Rightarrow> arg list \<Rightarrow> bool" where
  "no_result s as =
     list_all (\<lambda>x. \<not> has_class s [EquilibriumResult] x) (concat (map objs as))"

fun result_use_ok :: "analysis \<Rightarrow> event \<Rightarrow> bool" where
  "result_use_ok s (New v c as) = no_result s as"
| "result_use_ok s (Call v m as) = (\<not> has_class s [EquilibriumResult] v \<and> no_result s as)"
| "result_use_ok s (Bind w c v m as) =
     (\<not> has_class s [EquilibriumResult] v \<and> no_result s as)"
| "result_use_ok s (Chain v ls) =
     (\<not> has_class s [EquilibriumResult] v \<and> no_result s (concat (map snd ls)))"
| "result_use_ok s (BindChain w c v ls) =
     (\<not> has_class s [EquilibriumResult] v \<and> no_result s (concat (map snd ls)))"
| "result_use_ok s (For x c v ls) =
     (\<not> has_class s [EquilibriumResult] v \<and> no_result s (concat (map snd ls)))"
| "result_use_ok s (Fun f as) = no_result s as"
| "result_use_ok s (FunBind w c f as) = no_result s as"
| "result_use_ok s (SetAttr v a) = (\<not> has_class s [EquilibriumResult] v)"
| "result_use_ok s (ReadFlag v) = has_class s [EquilibriumResult] v"
| "result_use_ok s (Print as) = no_result s as"













section \<open>All checks in one pass\<close>

definition all_checks :: "analysis \<Rightarrow> event \<Rightarrow> bool" where
  "all_checks s e =
     (well_staged s e \<and> conditions_ok s e \<and> system_untouched s e \<and> result_use_ok s e)"

section \<open>Running a trace\<close>

lemma run_append:
  "run ok s (xs @ ys) = (case run ok s xs of None \<Rightarrow> None | Some t \<Rightarrow> run ok t ys)"
  by (induction xs arbitrary: s) auto

lemma repeat_Suc: "repeat (Suc n) b = b @ repeat n b"
  by (simp add: repeat_def)

lemma for_each_const: "for_each xs (\<lambda>x. b) = repeat (length xs) b"
  by (simp add: for_each_def repeat_def map_replicate_const)

text \<open>A loop body that leaves the state as it finds it can be run any number of
  times.\<close>

lemma run_repeat_fixed:
  assumes "run ok t b = Some t"
  shows "run ok t (repeat n b) = Some t"
proof (induction n)
  case 0
  show ?case by (simp add: repeat_def)
next
  case (Suc n)
  with assms show ?case by (simp add: repeat_Suc run_append)
qed

text \<open>If the body takes \<open>s\<close> to \<open>t\<close> and leaves \<open>t\<close> as it is, then the loop
  ends in \<open>t\<close> after at least one iteration.\<close>

lemma run_repeat:
  assumes "run ok s b = Some t" and "run ok t b = Some t"
  shows "run ok s (repeat n b) = Some (if n = 0 then s else t)"
proof (cases n)
  case 0
  then show ?thesis by (simp add: repeat_def)
next
  case (Suc m)
  with assms run_repeat_fixed [of ok t b m] show ?thesis
    by (simp add: repeat_Suc run_append)
qed

text \<open>The same for a loop whose body depends on the item: every body takes \<open>s\<close> to
  \<open>t\<close> and leaves \<open>t\<close> as it is.\<close>

lemma run_for_each:
  assumes "\<And>x. run ok s (f x) = Some t" and "\<And>x. run ok t (f x) = Some t"
  shows "run ok s (for_each xs f) = Some (if xs = [] then s else t)"
proof -
  have fixed: "run ok t (for_each ys f) = Some t" for ys
    by (induction ys) (simp_all add: for_each_def run_append assms(2))
  show ?thesis
  proof (cases xs)
    case Nil
    then show ?thesis by (simp add: for_each_def)
  next
    case (Cons y ys)
    have "run ok s (for_each (y # ys) f) = run ok t (for_each ys f)"
      by (simp add: for_each_def run_append assms(1))
    with fixed [of ys] Cons show ?thesis by simp
  qed
qed

lemma run_if:
  "run ok s (if c then es else es') = (if c then run ok s es else run ok s es')"
  by simp

text \<open>A run that passes a check passes every weaker check.\<close>

lemma run_weaken:
  assumes "\<And>s e. P s e \<Longrightarrow> Q s e" and "run P s es = Some t"
  shows "run Q s es = Some t"
  using assms(2)
proof (induction es arbitrary: s)
  case Nil
  then show ?case by simp
next
  case (Cons e es)
  then show ?case using assms(1) by (auto split: if_splits)
qed

lemma holds_weaken:
  assumes "\<And>s e. P s e \<Longrightarrow> Q s e" and "holds P es"
  shows "holds Q es"
  using assms run_weaken [of P Q init es] by (auto simp: holds_def)

lemmas check_defs = init_def class_of_def has_class_def inputs_of_def nconds_of_def
  is_consumed_def part_of_system_def declares_def sets_bound_def sets_value_def bind_def
  call_def construct_def head_call_def fetched_def created_def
  phase_classes_def props_classes_def single_def known_def invoked_on_def
  pipeline_methods_def handed_out_def items_def hands_out_def head_link_def
  conditions_built_ok_def value_ok_def setter_ok_def system_accessors_def
  system_readers_def receiver_ok_def no_part_def no_result_def all_checks_def holds_def

lemmas loop_simps = run_append for_each_const run_repeat run_for_each run_if arange_def
  nsteps_def

section \<open>Every notebook passes the checks\<close>

lemma checked_overview: "holds all_checks overview"
  by (simp add: overview_def check_defs loop_simps)

lemma checked_databases: "holds all_checks (databases n1 n2 n3 n4)"
  by (simp add: databases_def check_defs loop_simps)

lemma checked_creating_chemical_states: "holds all_checks (creating_chemical_states n)"
  by (simp add: creating_chemical_states_def check_defs loop_simps)

lemma checked_defining_chemical_systems: "holds all_checks (defining_chemical_systems ps1 n1 n2 n3 n4 ps2 sts)"
  by (simp add: defining_chemical_systems_def check_defs loop_simps)

lemma checked_defining_materials: "holds all_checks defining_materials"
  by (simp add: defining_materials_def check_defs loop_simps)

lemma checked_specifying_activity_models: "holds all_checks (specifying_activity_models n1 n2 n3)"
  by (simp add: specifying_activity_models_def check_defs loop_simps)

lemma checked_computing_chemical_properties: "holds all_checks computing_chemical_properties"
  by (simp add: computing_chemical_properties_def check_defs loop_simps)

lemma checked_computing_aqueous_properties: "holds all_checks computing_aqueous_properties"
  by (simp add: computing_aqueous_properties_def check_defs loop_simps)

lemma checked_computing_thermodynamic_properties: "holds all_checks computing_thermodynamic_properties"
  by (simp add: computing_thermodynamic_properties_def temperatures_saturation_def check_defs
      loop_simps)

lemma checked_equilibrium_basics: "holds all_checks (equilibrium_basics b)"
  by (simp add: equilibrium_basics_def check_defs loop_simps)

lemma checked_equilibrium_with_constraints: "holds all_checks equilibrium_with_constraints"
  by (simp add: equilibrium_with_constraints_def check_defs loop_simps)

lemma checked_equilibrium_with_fixed_ph: "holds all_checks equilibrium_with_fixed_ph"
  by (simp add: equilibrium_with_fixed_ph_def check_defs loop_simps)

lemma checked_equilibrium_with_fixed_ph_charge_balance: "holds all_checks (equilibrium_with_fixed_ph_charge_balance b)"
  by (simp add: equilibrium_with_fixed_ph_charge_balance_def check_defs loop_simps)

lemma checked_equilibrium_with_fixed_fugacity: "holds all_checks (equilibrium_with_fixed_fugacity b)"
  by (simp add: equilibrium_with_fixed_fugacity_def check_defs loop_simps)

lemma checked_equilibrium_with_fixed_phase_amount: "holds all_checks equilibrium_with_fixed_phase_amount"
  by (simp add: equilibrium_with_fixed_phase_amount_def check_defs loop_simps)

lemma checked_equilibrium_with_fixed_volume_internal_energy: "holds all_checks equilibrium_with_fixed_volume_internal_energy"
  by (simp add: equilibrium_with_fixed_volume_internal_energy_def check_defs loop_simps)

lemma checked_equilibrium_with_custom_constraints: "holds all_checks equilibrium_with_custom_constraints"
  by (simp add: equilibrium_with_custom_constraints_def check_defs loop_simps)

lemma checked_ion_exchange_mix_porewater_extractant: "holds all_checks ion_exchange_mix_porewater_extractant"
  by (simp add: ion_exchange_mix_porewater_extractant_def check_defs loop_simps)

lemma checked_solubility_calcite_in_water_rainwater: "holds all_checks solubility_calcite_in_water_rainwater"
  by (simp add: solubility_calcite_in_water_rainwater_def solubility_of_calcite_def water_def
      rainwater_def seawater_def temperatures_calcite_def pressures_calcite_def check_defs
      loop_simps)

lemma checked_opening_bottle_with_sparkling_water: "holds all_checks opening_bottle_with_sparkling_water"
  by (simp add: opening_bottle_with_sparkling_water_def pressures_bottle_def check_defs
      loop_simps)

lemma checked_solubility_tablesalt_water: "holds all_checks solubility_tablesalt_water"
  by (simp add: solubility_tablesalt_water_def check_defs loop_simps)

lemma checked_solubility_anhydrite: "holds all_checks solubility_anhydrite"
  by (simp add: solubility_anhydrite_def water_problem_def temperatures_anhydrite_def
      pressures_anhydrite_def check_defs loop_simps)

lemma checked_evian_water_analysis: "holds all_checks evian_water_analysis"
  by (simp add: evian_water_analysis_def check_defs loop_simps)

lemma checked_ph_dependence_on_co2_addition_in_seawater: "holds all_checks ph_dependence_on_co2_addition_in_seawater"
  by (simp add: ph_dependence_on_co2_addition_in_seawater_def check_defs loop_simps)

lemma checked_ph_dependence_on_contaminants_in_water: "holds all_checks ph_dependence_on_contaminants_in_water"
  by (simp add: ph_dependence_on_contaminants_in_water_def check_defs loop_simps)

lemmas checked =
  checked_overview
  checked_databases
  checked_creating_chemical_states
  checked_defining_chemical_systems
  checked_defining_materials
  checked_specifying_activity_models
  checked_computing_chemical_properties
  checked_computing_aqueous_properties
  checked_computing_thermodynamic_properties
  checked_equilibrium_basics
  checked_equilibrium_with_constraints
  checked_equilibrium_with_fixed_ph
  checked_equilibrium_with_fixed_ph_charge_balance
  checked_equilibrium_with_fixed_fugacity
  checked_equilibrium_with_fixed_phase_amount
  checked_equilibrium_with_fixed_volume_internal_energy
  checked_equilibrium_with_custom_constraints
  checked_ion_exchange_mix_porewater_extractant
  checked_solubility_calcite_in_water_rainwater
  checked_opening_bottle_with_sparkling_water
  checked_solubility_tablesalt_water
  checked_solubility_anhydrite
  checked_evian_water_analysis
  checked_ph_dependence_on_co2_addition_in_seawater
  checked_ph_dependence_on_contaminants_in_water

lemma all_notebooks_checked: "list_all (holds all_checks) (notebooks a)"
  by (simp add: notebooks_def checked)

section \<open>Solver flags\<close>
























































text \<open>The calculations of the notebook with fixed pH are started by
  \<^verbatim>\<open>solver.solve\<close>.\<close>

lemma solved_equilibrium_with_fixed_ph:
  "solved_by_solver_only equilibrium_with_fixed_ph"
  by (simp add: equilibrium_with_fixed_ph_def solved_by_solver_only_def)



section \<open>Conditions and specifications\<close>

text \<open>The reading of the claim that asks every bounded variable to be a declared input
  is met by the notebook with fixed pH, which sets no bound.\<close>

lemma claimed_equilibrium_with_fixed_ph:
  "holds conditions_as_claimed equilibrium_with_fixed_ph"
  by (simp add: equilibrium_with_fixed_ph_def check_defs setter_as_claimed_def)

text \<open>
  Claim C5 as stated fails: in \<^verbatim>\<open>equilibrium-with-fixed-phase-amount.ipynb\<close> the
  specification declares the inputs temperature and phase amount only, and the
  conditions set a lower and an upper bound on the pressure.
\<close>

theorem bounds_set_on_undeclared_pressure:
  "\<not> holds conditions_as_claimed equilibrium_with_fixed_phase_amount"
  by (simp add: equilibrium_with_fixed_phase_amount_def check_defs setter_as_claimed_def)

text \<open>
  Claim C5, amended. In every notebook, every \<open>EquilibriumConditions\<close> object is
  constructed from exactly one \<open>EquilibriumSpecs\<close> object, from which no other
  conditions object is constructed; a value is set only for an input which that
  specification declared before; and a bound is set only on the temperature or the
  pressure, and only when the specification does not declare it as an input.
\<close>

theorem conditions_follow_their_specs:
  "list_all (holds conditions_ok) (notebooks a)"
proof -
  have "holds conditions_ok es" if "holds all_checks es" for es
    using _ that by (rule holds_weaken) (simp add: all_checks_def)
  with all_notebooks_checked [of a] show ?thesis
    by (auto simp: list_all_iff)
qed

section \<open>The data flow\<close>

text \<open>The order of the stages is followed by the notebook with fixed pH.\<close>

lemma ordered_equilibrium_with_fixed_ph:
  "follows_data_flow_order equilibrium_with_fixed_ph"
  by (simp add: equilibrium_with_fixed_ph_def follows_data_flow_order_def)

text \<open>
  Claim C6 as stated fails: \<^verbatim>\<open>equilibrium-with-fixed-volume-internal-energy.ipynb\<close>
  computes \<^verbatim>\<open>props = ChemicalProps(state)\<close> from the initial state, to read the
  volume and the internal energy, before any solver exists and before any solve.
\<close>

theorem properties_computed_before_solve:
  "\<not> follows_data_flow_order equilibrium_with_fixed_volume_internal_energy"
  by (simp add: equilibrium_with_fixed_volume_internal_energy_def follows_data_flow_order_def)

text \<open>
  Claim C6, amended. In every notebook every object is built from objects that exist
  already: a chemical system from a database and phases; a chemical state, an
  equilibrium specification or a material from a system; conditions from a
  specification; a solver from a system or a specification; properties from a system
  or a state; \<^verbatim>\<open>solve\<close> is called on a solver with a state, or with a state and
  conditions, and properties are updated with a state. Properties may be computed
  before a solve, and a solver may be constructed before the state.
\<close>

theorem stages_built_from_existing_objects:
  "list_all (holds well_staged) (notebooks a)"
proof -
  have "holds well_staged es" if "holds all_checks es" for es
    using _ that by (rule holds_weaken) (simp add: all_checks_def)
  with all_notebooks_checked [of a] show ?thesis
    by (auto simp: list_all_iff)
qed

section \<open>Chemical systems\<close>

text \<open>
  Claim C7. No operation of any notebook modifies a chemical system. In every notebook
  the methods called on a \<open>ChemicalSystem\<close>, and on the phases, species and elements
  obtained from it, directly or in a chain such as \<^verbatim>\<open>system.phase(i).name()\<close>, are
  the accessors \<^verbatim>\<open>species\<close>, \<^verbatim>\<open>phases\<close>, \<^verbatim>\<open>elements\<close>, \<^verbatim>\<open>formulaMatrix\<close>,
  \<^verbatim>\<open>phase\<close>, \<^verbatim>\<open>name\<close>, \<^verbatim>\<open>formula\<close>, \<^verbatim>\<open>str\<close>, \<^verbatim>\<open>molarMass\<close>, \<^verbatim>\<open>symbol\<close>,
  \<^verbatim>\<open>aggregateState\<close>, \<^verbatim>\<open>index\<close> and \<^verbatim>\<open>size\<close>; no attribute of such an object is
  assigned; a system is passed to the constructors of states, materials,
  specifications, solvers and properties only, and never to a method or a free
  function, and the objects obtained from it are passed to nothing; an activity model
  (or a name) is set on a phase object only before it is
  passed to a \<open>ChemicalSystem\<close> constructor; and every system is constructed from
  phase objects that no earlier system was constructed from: to change an activity
  model the notebooks build new phases and a new system.
\<close>

theorem chemical_systems_not_modified:
  "list_all (holds system_untouched) (notebooks a)"
proof -
  have "holds system_untouched es" if "holds all_checks es" for es
    using _ that by (rule holds_weaken) (simp add: all_checks_def)
  with all_notebooks_checked [of a] show ?thesis
    by (auto simp: list_all_iff)
qed

end
